theory Spec2Isabelle
  imports Complex_Main
begin

section \<open>Data model\<close>

text \<open>
  The program is \<^verbatim>\<open>OnlineMEME.py\<close>, a streaming EM estimator for a two-component
  mixture (motif / background) over DNA words of a fixed width \<open>W\<close>.

  A numpy matrix is a list of rows. Floating-point numbers are modelled by the reals,
  so every statement below is about the exact arithmetic the code approximates; the
  step size \<^verbatim>\<open>0.85\<close> is the rational \<open>17/20\<close>.

  numpy does not stop on a division by zero: it yields \<^verbatim>\<open>nan\<close> or \<^verbatim>\<open>inf\<close>, which no
  real number models and which every later operation of the estimator inherits.
  The model makes this explicit: a computation whose float result would be
  \<^verbatim>\<open>nan\<close>/\<^verbatim>\<open>inf\<close> returns \<open>Inl DivisionByZero\<close>, and the loop of the estimator then
  goes on without real values, as the code does (see \<open>Online_nan_loop\<close>). A boolean
  mask whose shape differs from the indexed matrix is numpy's \<^verbatim>\<open>IndexError\<close>, and
  operands whose shapes do not fit are its \<^verbatim>\<open>ValueError\<close>; these two are exceptions
  and end the run.
\<close>

datatype error = IndexError | ValueError | DivisionByZero

type_synonym matrix = "real list list"
type_synonym indicator = "bool list list"

text \<open>The shape of an array, one length per row.\<close>

definition shape :: "'a list list \<Rightarrow> nat list" where
  "shape m = map length m"

text \<open>
  \<^verbatim>\<open>theta[I]\<close> with a boolean matrix \<open>I\<close>: the entries of \<open>theta\<close> at the true
  positions of \<open>I\<close>, in row-major order, as a flat array.
\<close>

definition mask_row :: "bool list \<Rightarrow> real list \<Rightarrow> real list" where
  "mask_row r t = map snd (filter fst (zip r t))"

definition mask_select :: "indicator \<Rightarrow> matrix \<Rightarrow> real list" where
  "mask_select I theta = concat (map (\<lambda>(r, t). mask_row r t) (zip I theta))"

section \<open>Likelihoods and the responsibility\<close>

text \<open>
  \<^verbatim>\<open>
  def pI_motif(I, theta_motif):
      ps = theta_motif[I]
      p = ps.prod()
      return p
  \<close>
  The product of an empty selection is 1, as \<^verbatim>\<open>prod\<close> of an empty array is.
\<close>

definition pI_motif :: "indicator \<Rightarrow> matrix \<Rightarrow> error + real" where
  "pI_motif I theta_motif =
     (if shape I = shape theta_motif
      then (let ps = mask_select I theta_motif; p = prod_list ps in Inr p)
      else Inl IndexError)"

definition pI_background :: "indicator \<Rightarrow> matrix \<Rightarrow> error + real" where
  "pI_background I theta_background_matrix =
     (if shape I = shape theta_background_matrix
      then (let ps = mask_select I theta_background_matrix; p = prod_list ps in Inr p)
      else Inl IndexError)"

text \<open>
  \<^verbatim>\<open>
  def Z0_I(I, theta_motif, theta_background_matrix, lambda_motif):
      a = pI_motif(I, theta_motif)*lambda_motif
      b = pI_background(I, theta_background_matrix)*(1-lambda_motif)
      Z0 = a/(a + b)
      return Z0
  \<close>
  There is no test of the denominator in the source: with \<open>a + b = 0\<close> the quotient
  is \<^verbatim>\<open>nan\<close> (or \<^verbatim>\<open>inf\<close>).
\<close>

definition Z0_I :: "indicator \<Rightarrow> matrix \<Rightarrow> matrix \<Rightarrow> real \<Rightarrow> error + real" where
  "Z0_I I theta_motif theta_background_matrix lambda_motif =
     (case pI_motif I theta_motif of
        Inl e \<Rightarrow> Inl e
      | Inr pm \<Rightarrow>
          (case pI_background I theta_background_matrix of
             Inl e \<Rightarrow> Inl e
           | Inr pb \<Rightarrow>
               (let a = pm * lambda_motif;
                    b = pb * (1 - lambda_motif)
                in if a + b = 0 then Inl DivisionByZero else Inr (a / (a + b)))))"

text \<open>
  \<^verbatim>\<open>
  def sequenceToI(X):
      l = array(list(X))
      d = array(['A','C','G','T'])
      I = l[:,newaxis] == d
      return I
  \<close>
  One row per character of \<open>X\<close>, one column per nucleotide.
\<close>

definition sequenceToI :: "string \<Rightarrow> indicator" where
  "sequenceToI X = (let l = X; d = ''ACGT'' in map (\<lambda>c. map (\<lambda>k. c = k) d) l)"

section \<open>The batch M-step\<close>

text \<open>
  The numpy primitives \<^verbatim>\<open>diag\<close>, \<^verbatim>\<open>dot\<close> and \<^verbatim>\<open>repeat(k, axis=0)\<close>, on lists of rows.
\<close>

definition diag :: "real list \<Rightarrow> matrix" where
  "diag v = map (\<lambda>i. map (\<lambda>j. if j = i then v ! i else 0) [0..<length v]) [0..<length v]"

definition ncols :: "'a list list \<Rightarrow> nat" where
  "ncols B = (case B of [] \<Rightarrow> 0 | b # _ \<Rightarrow> length b)"

definition column :: "matrix \<Rightarrow> nat \<Rightarrow> real list" where
  "column B j = map (\<lambda>b. b ! j) B"

definition dot :: "matrix \<Rightarrow> matrix \<Rightarrow> matrix" where
  "dot A B = map (\<lambda>a. map (\<lambda>j. sum_list (map2 (*) a (column B j))) [0..<ncols B]) A"

definition repeat_rows :: "nat \<Rightarrow> 'a list \<Rightarrow> 'a list" where
  "repeat_rows k m = concat (map (replicate k) m)"

text \<open>
  \<^verbatim>\<open>
  def M(Z, n, c0, c):
      Z_total = 0
      for Zi in Z:
          for Zij in Zi:
              Z_total = Z_total + Zij
      lambda_motif = Z_total/n
      c0 = array([c0])
      c = concatenate((c0,c))
      f = dot(diag(1/c.sum(axis=1)),c)
      theta_motif = f[1:]
      theta_background = array([f[0]])
      theta_background_matrix = theta_background.repeat(theta_motif.shape[0],axis=0)
      return lambda_motif, theta_motif, theta_background_matrix
  \<close>
  \<^verbatim>\<open>concatenate\<close> raises \<^verbatim>\<open>ValueError\<close> unless \<open>c0\<close> is as long as the rows of
  \<open>c\<close>; a count \<open>n = 0\<close> and a row of the stacked matrix that sums to 0 are the
  divisions by zero.
\<close>

definition M :: "real list list \<Rightarrow> int \<Rightarrow> real list \<Rightarrow> matrix \<Rightarrow> error + (real \<times> matrix \<times> matrix)" where
  "M Z n c0 c =
     (let Z_total = foldl (\<lambda>Z_total Zi. foldl (\<lambda>Z_total Zij. Z_total + Zij) Z_total Zi) 0 Z
      in if n = 0 then Inl DivisionByZero
         else
           (let lambda_motif = Z_total / of_int n
            in if list_all (\<lambda>row. length row = length c0) c
               then
                 (let c0' = [c0];
                      c' = c0' @ c;
                      row_sums = map sum_list c'
                  in if 0 \<in> set row_sums then Inl DivisionByZero
                     else
                       (let f = dot (diag (map (\<lambda>s. 1 / s) row_sums)) c';
                            theta_motif = drop 1 f;
                            theta_background = [f ! 0];
                            theta_background_matrix =
                              repeat_rows (length theta_motif) theta_background
                        in Inr (lambda_motif, theta_motif, theta_background_matrix)))
               else Inl ValueError))"

section \<open>The online estimator\<close>

text \<open>
  The local variables of \<^verbatim>\<open>Online_EM\<close> that live across iterations of its loop.
\<close>

record em_state =
  s1_1 :: real
  s1_2 :: matrix
  s2_2 :: matrix
  lambda_motif :: real
  theta_motif :: matrix
  theta_background_matrix :: matrix
  n :: nat

text \<open>
  Elementwise numpy arithmetic. \<open>mask_scale k I\<close> is \<^verbatim>\<open>k*I\<close> for a boolean matrix
  \<open>I\<close> (\<^verbatim>\<open>True\<close> counts as 1, \<^verbatim>\<open>False\<close> as 0); \<open>colsum\<close> is \<^verbatim>\<open>sum(axis=0)\<close>.
\<close>

definition mask_scale :: "real \<Rightarrow> indicator \<Rightarrow> matrix" where
  "mask_scale k I = map (map (\<lambda>b. k * of_bool b)) I"

definition mat_scale :: "real \<Rightarrow> matrix \<Rightarrow> matrix" where
  "mat_scale k m = map (map (\<lambda>x. k * x)) m"

definition mat_add :: "matrix \<Rightarrow> matrix \<Rightarrow> matrix" where
  "mat_add A B = map2 (map2 (+)) A B"

definition mat_sub :: "matrix \<Rightarrow> matrix \<Rightarrow> matrix" where
  "mat_sub A B = map2 (map2 (-)) A B"

definition colsum :: "matrix \<Rightarrow> real list" where
  "colsum m = map (\<lambda>j. sum_list (column m j)) [0..<ncols m]"

text \<open>
  The E-step of one iteration (the lines under \<^verbatim>\<open>#E-step\<close>):
  \<^verbatim>\<open>
      step = 0.85
      ds1_1 = Z0_I(I,theta_motif, theta_background_matrix,lambda_motif)
      ds1_2 = ds1_1*I
      ds2_2 = (1-ds1_1)*I
      s1_1 = s1_1 + step*(ds1_1 - s1_1)
      s1_2 = s1_2 + step*(ds1_2 - s1_2)
      s2_2 = s2_2 + step*(ds2_2 - s2_2)
  \<close>
  The subtractions need operands of one shape (\<^verbatim>\<open>ValueError\<close> otherwise; in the
  states \<^verbatim>\<open>Online_EM\<close> reaches the shapes agree whenever \<^verbatim>\<open>Z0_I\<close> has returned).
\<close>

definition Online_E_step :: "em_state \<Rightarrow> indicator \<Rightarrow> error + em_state" where
  "Online_E_step st I =
     (let step = 17 / 20
      in case Z0_I I (theta_motif st) (theta_background_matrix st) (lambda_motif st) of
           Inl e \<Rightarrow> Inl e
         | Inr ds1_1 \<Rightarrow>
             if shape (s1_2 st) = shape I \<and> shape (s2_2 st) = shape I
             then
               (let ds1_2 = mask_scale ds1_1 I;
                    ds2_2 = mask_scale (1 - ds1_1) I
                in Inr (st\<lparr>s1_1 := s1_1 st + step * (ds1_1 - s1_1 st),
                           s1_2 := mat_add (s1_2 st) (mat_scale step (mat_sub ds1_2 (s1_2 st))),
                           s2_2 := mat_add (s2_2 st) (mat_scale step (mat_sub ds2_2 (s2_2 st)))\<rparr>))
             else Inl ValueError)"

text \<open>
  The M-step of one iteration (the lines under \<^verbatim>\<open>#M-step\<close>):
  \<^verbatim>\<open>
      lambda_motif = s1_1
      theta_motif = s1_2
      theta_background = s2_2.sum(axis = 0)
      theta_background = theta_background/theta_background.sum()
      theta_background = array([theta_background])
      theta_background_matrix = theta_background.repeat(W,axis=0)
  \<close>
  When the column sums add up to 0 the background matrix holds \<^verbatim>\<open>nan\<close>, which the
  following iterations inherit.
\<close>

definition Online_M_step :: "nat \<Rightarrow> em_state \<Rightarrow> error + em_state" where
  "Online_M_step W st =
     (let theta_background = colsum (s2_2 st);
          total = sum_list theta_background
      in if total = 0 then Inl DivisionByZero
         else
           (let theta_background' = map (\<lambda>x. x / total) theta_background;
                theta_background'' = [theta_background']
            in Inr (st\<lparr>lambda_motif := s1_1 st,
                       theta_motif := s1_2 st,
                       theta_background_matrix := repeat_rows W theta_background''\<rparr>)))"

text \<open>The body of the loop: encode the sequence, E-step, M-step, advance the counter.\<close>

definition Online_iter :: "nat \<Rightarrow> em_state \<Rightarrow> string \<Rightarrow> error + em_state" where
  "Online_iter W st y =
     (let I = sequenceToI y
      in case Online_E_step st I of
           Inl e \<Rightarrow> Inl e
         | Inr st1 \<Rightarrow>
             (case Online_M_step W st1 of
                Inl e \<Rightarrow> Inl e
              | Inr st2 \<Rightarrow> Inr (st2\<lparr>n := n st2 + 1\<rparr>)))"

text \<open>
  The loop after a division by zero. The iteration that divided by zero on the
  indicator matrix \<open>I\<close> leaves \<^verbatim>\<open>theta_motif\<close> with the shape of \<open>I\<close> and
  \<^verbatim>\<open>theta_background_matrix\<close> with \<open>W\<close> rows of as many columns, and \<^verbatim>\<open>nan\<close> among
  their entries. No exception is raised, so the loop takes the next sequence:
  \<^verbatim>\<open>Z0_I\<close> indexes both matrices with the new indicator matrix (\<^verbatim>\<open>IndexError\<close>
  unless the shapes fit) and every value it computes from them is \<^verbatim>\<open>nan\<close> again.
  When the sequences are exhausted the returned triple holds \<^verbatim>\<open>nan\<close>, which is
  the result \<open>DivisionByZero\<close>. (With matrix entries that are not negative and a
  weight in \<open>[0, 1]\<close> a division by zero is always \<^verbatim>\<open>0/0\<close>, and \<^verbatim>\<open>nan\<close> never turns
  into a number again. Negative entries or another weight can give \<^verbatim>\<open>inf\<close>, whose
  arithmetic the model does not follow; no theorem below is about such inputs.)
\<close>

fun Online_nan_loop :: "nat \<Rightarrow> indicator \<Rightarrow> string list \<Rightarrow> error" where
  "Online_nan_loop W I [] = DivisionByZero"
| "Online_nan_loop W I (y # Y) =
     (let I' = sequenceToI y
      in if shape I' = shape I
         then (if shape I' = replicate W (ncols I) then Online_nan_loop W I' Y else IndexError)
         else IndexError)"

text \<open>
  The loop \<^verbatim>\<open>for y in Y\<close>: an exception of the body ends the run, a division by
  zero does not.
\<close>

fun Online_loop :: "nat \<Rightarrow> em_state \<Rightarrow> string list \<Rightarrow> error + em_state" where
  "Online_loop W st [] = Inr st"
| "Online_loop W st (y # Y) =
     (case Online_iter W st y of
        Inl e \<Rightarrow>
          (case e of
             DivisionByZero \<Rightarrow> Inl (Online_nan_loop W (sequenceToI y) Y)
           | IndexError \<Rightarrow> Inl IndexError
           | ValueError \<Rightarrow> Inl ValueError)
      | Inr st' \<Rightarrow> Online_loop W st' Y)"

text \<open>
  \<^verbatim>\<open>
  def Online_EM(Y, theta_motif, theta_background_matrix, lambda_motif):
      W = theta_motif.shape[0]
      s1_1 = lambda_motif
      s1_2 = theta_motif
      s2_2 = theta_background_matrix
      n = 1
      for y in Y: ...
      return theta_motif, theta_background_matrix, lambda_motif
  \<close>
\<close>

definition init_state :: "matrix \<Rightarrow> matrix \<Rightarrow> real \<Rightarrow> em_state" where
  "init_state tm tb lam =
     \<lparr>s1_1 = lam, s1_2 = tm, s2_2 = tb,
      lambda_motif = lam, theta_motif = tm, theta_background_matrix = tb, n = 1\<rparr>"

definition Online_EM :: "string list \<Rightarrow> matrix \<Rightarrow> matrix \<Rightarrow> real \<Rightarrow> error + (matrix \<times> matrix \<times> real)" where
  "Online_EM Y tm tb lam =
     (let W = length tm
      in case Online_loop W (init_state tm tb lam) Y of
           Inl e \<Rightarrow> Inl e
         | Inr st \<Rightarrow> Inr (theta_motif st, theta_background_matrix st, lambda_motif st))"

section \<open>The random generators\<close>

text \<open>
  The module imports three random sources, \<^verbatim>\<open>gauss\<close> and \<^verbatim>\<open>sample\<close> from \<^verbatim>\<open>random\<close>
  and \<^verbatim>\<open>rand\<close> from \<^verbatim>\<open>numpy.random\<close>. Their generators are global state of the
  interpreter, in the reach of every function. That state is modelled by the
  values the generators will still deliver and the number of values drawn so far;
  a call of one of the three sources is a \<open>draw\<close>, which hands out the next value
  and moves the state on.
\<close>

type_synonym rng = "(nat \<Rightarrow> real) \<times> nat"

definition draw :: "rng \<Rightarrow> real \<times> rng" where
  "draw g = (fst g (snd g), (fst g, Suc (snd g)))"

text \<open>
  The streaming path once more, with the state of the generators passed along the
  calls in the order of the source: each function takes the state it is called in
  and returns the state it leaves. The array operations of numpy (indexing,
  \<^verbatim>\<open>prod\<close>, \<^verbatim>\<open>sum\<close>, \<^verbatim>\<open>repeat\<close>, arithmetic) take no random value, so a body made
  of them alone hands back the state it was given.
\<close>

definition sequenceToI_rng :: "string \<Rightarrow> rng \<Rightarrow> indicator \<times> rng" where
  "sequenceToI_rng X g = (let l = X; d = ''ACGT'' in (map (\<lambda>c. map (\<lambda>k. c = k) d) l, g))"

definition pI_motif_rng :: "indicator \<Rightarrow> matrix \<Rightarrow> rng \<Rightarrow> (error + real) \<times> rng" where
  "pI_motif_rng I tm g =
     (if shape I = shape tm
      then (let ps = mask_select I tm; p = prod_list ps in (Inr p, g))
      else (Inl IndexError, g))"

definition pI_background_rng :: "indicator \<Rightarrow> matrix \<Rightarrow> rng \<Rightarrow> (error + real) \<times> rng" where
  "pI_background_rng I tb g =
     (if shape I = shape tb
      then (let ps = mask_select I tb; p = prod_list ps in (Inr p, g))
      else (Inl IndexError, g))"

definition Z0_I_rng :: "indicator \<Rightarrow> matrix \<Rightarrow> matrix \<Rightarrow> real \<Rightarrow> rng \<Rightarrow> (error + real) \<times> rng" where
  "Z0_I_rng I tm tb lam g =
     (case pI_motif_rng I tm g of
        (Inl e, g1) \<Rightarrow> (Inl e, g1)
      | (Inr pm, g1) \<Rightarrow>
          (case pI_background_rng I tb g1 of
             (Inl e, g2) \<Rightarrow> (Inl e, g2)
           | (Inr pb, g2) \<Rightarrow>
               (let a = pm * lam;
                    b = pb * (1 - lam)
                in (if a + b = 0 then Inl DivisionByZero else Inr (a / (a + b)), g2))))"

definition Online_iter_rng :: "nat \<Rightarrow> em_state \<Rightarrow> string \<Rightarrow> rng \<Rightarrow> (error + em_state) \<times> rng" where
  "Online_iter_rng W st y g =
     (case sequenceToI_rng y g of
        (I, g1) \<Rightarrow>
          (let step = 17 / 20
           in case Z0_I_rng I (theta_motif st) (theta_background_matrix st) (lambda_motif st) g1 of
                (Inl e, g2) \<Rightarrow> (Inl e, g2)
              | (Inr ds1_1, g2) \<Rightarrow>
                  if shape (s1_2 st) = shape I \<and> shape (s2_2 st) = shape I
                  then
                    (let ds1_2 = mask_scale ds1_1 I;
                         ds2_2 = mask_scale (1 - ds1_1) I;
                         st1 = st\<lparr>s1_1 := s1_1 st + step * (ds1_1 - s1_1 st),
                                  s1_2 := mat_add (s1_2 st) (mat_scale step (mat_sub ds1_2 (s1_2 st))),
                                  s2_2 := mat_add (s2_2 st) (mat_scale step (mat_sub ds2_2 (s2_2 st)))\<rparr>
                     in case Online_M_step W st1 of
                          Inl e \<Rightarrow> (Inl e, g2)
                        | Inr st2 \<Rightarrow> (Inr (st2\<lparr>n := n st2 + 1\<rparr>), g2))
                  else (Inl ValueError, g2)))"

fun Online_nan_loop_rng :: "nat \<Rightarrow> indicator \<Rightarrow> string list \<Rightarrow> rng \<Rightarrow> error \<times> rng" where
  "Online_nan_loop_rng W I [] g = (DivisionByZero, g)"
| "Online_nan_loop_rng W I (y # Y) g =
     (case sequenceToI_rng y g of
        (I', g1) \<Rightarrow>
          if shape I' = shape I
          then (if shape I' = replicate W (ncols I) then Online_nan_loop_rng W I' Y g1
                else (IndexError, g1))
          else (IndexError, g1))"

fun Online_loop_rng :: "nat \<Rightarrow> em_state \<Rightarrow> string list \<Rightarrow> rng \<Rightarrow> (error + em_state) \<times> rng" where
  "Online_loop_rng W st [] g = (Inr st, g)"
| "Online_loop_rng W st (y # Y) g =
     (case Online_iter_rng W st y g of
        (Inl e, g1) \<Rightarrow>
          (case e of
             DivisionByZero \<Rightarrow>
               (case Online_nan_loop_rng W (sequenceToI y) Y g1 of (e', g2) \<Rightarrow> (Inl e', g2))
           | IndexError \<Rightarrow> (Inl IndexError, g1)
           | ValueError \<Rightarrow> (Inl ValueError, g1))
      | (Inr st', g1) \<Rightarrow> Online_loop_rng W st' Y g1)"

definition Online_EM_rng ::
  "string list \<Rightarrow> matrix \<Rightarrow> matrix \<Rightarrow> real \<Rightarrow> rng \<Rightarrow> (error + (matrix \<times> matrix \<times> real)) \<times> rng" where
  "Online_EM_rng Y tm tb lam g =
     (let W = length tm
      in case Online_loop_rng W (init_state tm tb lam) Y g of
           (Inl e, g1) \<Rightarrow> (Inl e, g1)
         | (Inr st, g1) \<Rightarrow> (Inr (theta_motif st, theta_background_matrix st, lambda_motif st), g1))"

section \<open>Notions of the specification\<close>

text \<open>
  The definitions of this section are not translated from the source: they state
  what the specification says in its own words, and the theorems compare them with
  the definitions above.
\<close>

text \<open>
  An indicator matrix has exactly one true entry in each row; \<open>observed r\<close> is the
  column of that entry, that is, the letter observed at the position of row \<open>r\<close>.
\<close>

definition one_hot :: "bool list \<Rightarrow> bool" where
  "one_hot r = (length (filter id r) = 1)"

definition observed :: "bool list \<Rightarrow> nat" where
  "observed r = length (takeWhile Not r)"

text \<open>
  The likelihood of the specification: the product, over all positions, of the
  probability the matrix gives to the observed letter.
\<close>

definition likelihood :: "indicator \<Rightarrow> matrix \<Rightarrow> real" where
  "likelihood I theta = prod_list (map (\<lambda>i. theta ! i ! observed (I ! i)) [0..<length I])"

text \<open>
  The column of a nucleotide, and the product over the positions of a string that
  hold a nucleotide: a position with any other symbol counts as the factor 1.
\<close>

definition nucleotide_index :: "char \<Rightarrow> nat option" where
  "nucleotide_index c =
     (if c = CHR ''A'' then Some 0 else if c = CHR ''C'' then Some 1
      else if c = CHR ''G'' then Some 2 else if c = CHR ''T'' then Some 3 else None)"

definition likelihood_known :: "string \<Rightarrow> matrix \<Rightarrow> real" where
  "likelihood_known X theta =
     prod_list (map (\<lambda>i. case nucleotide_index (X ! i) of None \<Rightarrow> 1 | Some j \<Rightarrow> theta ! i ! j)
                    [0..<length X])"

text \<open>
  The update of a running accumulator, \<open>s \<leftarrow> s + step \<cdot> (ds - s)\<close>, at the step
  size \<open>0.85\<close>.
\<close>

definition ewma :: "real \<Rightarrow> real \<Rightarrow> real" where
  "ewma s ds = s + 17 / 20 * (ds - s)"

text \<open>
  A well-formed initial guess, as far as the estimator needs it: no negative entry
  in the motif matrix, no entry of the background matrix that is zero or negative.
\<close>

definition nonneg_matrix :: "matrix \<Rightarrow> bool" where
  "nonneg_matrix m = list_all (list_all (\<lambda>x. 0 \<le> x)) m"

definition pos_matrix :: "matrix \<Rightarrow> bool" where
  "pos_matrix m = list_all (list_all (\<lambda>x. 0 < x)) m"

text \<open>
  The invariant of the loop on such a guess and on sequences of length \<open>W\<close>; it is
  used in proofs only.
\<close>

definition good_state :: "nat \<Rightarrow> em_state \<Rightarrow> bool" where
  "good_state W st =
     (lambda_motif st = s1_1 st \<and> theta_motif st = s1_2 st \<and>
      shape (s1_2 st) = replicate W 4 \<and> shape (s2_2 st) = replicate W 4 \<and>
      shape (theta_background_matrix st) = replicate W 4 \<and>
      nonneg_matrix (s1_2 st) \<and> pos_matrix (s2_2 st) \<and>
      pos_matrix (theta_background_matrix st) \<and> 0 \<le> s1_1 st \<and> s1_1 st < 1)"

section \<open>Properties\<close>

subsection \<open>General facts about lists and fractions\<close>

lemma map2_nth_conv:
  "length xs = length ys \<Longrightarrow> map (\<lambda>(x, y). f x y) (zip xs ys) = map (\<lambda>i. f (xs ! i) (ys ! i)) [0..<length xs]"
  by (rule nth_equalityI) simp_all

lemma prod_list_concat_map:
  "prod_list (concat (map f xs)) = prod_list (map (\<lambda>x. prod_list (f x)) xs)"
  for f :: "'a \<Rightarrow> real list"
  by (induction xs) simp_all

lemma sum_list_delta:
  fixes g :: "nat \<Rightarrow> real"
  assumes "i < k"
  shows "sum_list (map (\<lambda>j. (if j = i then x else 0) * g j) [0..<k]) = x * g i"
proof -
  have "sum_list (map (\<lambda>j. (if j = i then x else 0) * g j) [0..<k])
      = (\<Sum>j = 0..<k. (if j = i then x else 0) * g j)"
    by (simp add: interv_sum_list_conv_sum_set_nat)
  also have "\<dots> = (\<Sum>j \<in> {0..<k}. if j = i then x * g j else 0)"
    by (rule sum.cong) simp_all
  also have "\<dots> = x * g i"
    using assms by (simp add: sum.delta)
  finally show ?thesis .
qed

lemma sum_list_normalised:
  fixes xs :: "real list"
  assumes "sum_list xs \<noteq> 0"
  shows "sum_list (map (\<lambda>x. x / sum_list xs) xs) = 1"
proof -
  have "sum_list (map (\<lambda>x. x / t) xs) = sum_list xs / t" for t :: real
    by (induction xs) (simp_all add: add_divide_distrib)
  with assms show ?thesis by simp
qed

lemma frac_cross:
  fixes x y d1 d2 :: real
  assumes "0 < d1" and "0 < d2"
  shows "(x / d1 \<le> y / d2) = (x * d2 \<le> y * d1)" and "(x / d1 < y / d2) = (x * d2 < y * d1)"
  using assms by (simp_all add: field_simps)

lemma shape_length: "shape A = shape B \<Longrightarrow> length A = length B"
  unfolding shape_def by (rule map_eq_imp_length_eq)

lemma shape_row: "shape A = shape B \<Longrightarrow> i < length A \<Longrightarrow> length (A ! i) = length (B ! i)"
  unfolding shape_def by (metis length_map nth_map)

lemma ncols_shape: "shape m = replicate k c \<Longrightarrow> 0 < k \<Longrightarrow> ncols m = c"
  by (cases m; cases k) (simp_all add: shape_def ncols_def)

subsection \<open>The sequence encoder and the likelihoods\<close>

lemma length_sequenceToI: "length (sequenceToI X) = length X"
  by (simp add: sequenceToI_def)

lemma nth_sequenceToI:
  "i < length X \<Longrightarrow> sequenceToI X ! i = map (\<lambda>k. X ! i = k) ''ACGT''"
  by (simp add: sequenceToI_def)

lemma shape_sequenceToI: "shape (sequenceToI X) = replicate (length X) 4"
  by (simp add: shape_def sequenceToI_def map_replicate_const comp_def)

lemma mask_select_nth:
  assumes "length I = length theta"
  shows "mask_select I theta = concat (map (\<lambda>i. mask_row (I ! i) (theta ! i)) [0..<length I])"
  unfolding mask_select_def using assms by (simp add: map2_nth_conv)

lemma mask_row_no_true: "filter id r = [] \<Longrightarrow> mask_row r t = []"
proof (induction r arbitrary: t)
  case Nil
  then show ?case by (simp add: mask_row_def)
next
  case (Cons b r)
  then show ?case by (cases t) (auto simp: mask_row_def split: if_splits)
qed

lemma mask_row_one_hot:
  "one_hot r \<Longrightarrow> length r = length t \<Longrightarrow> mask_row r t = [t ! observed r]"
proof (induction r arbitrary: t)
  case Nil
  then show ?case by (simp add: one_hot_def)
next
  case (Cons b r)
  then obtain x t' where t: "t = x # t'" by (cases t) auto
  show ?case
  proof (cases b)
    case True
    with Cons.prems have "filter id r = []" by (simp add: one_hot_def)
    then have "mask_row r t' = []" by (rule mask_row_no_true)
    with True t show ?thesis by (simp add: mask_row_def observed_def)
  next
    case False
    with Cons.prems t have "one_hot r" "length r = length t'" by (simp_all add: one_hot_def)
    then have "mask_row r t' = [t' ! observed r]" by (rule Cons.IH)
    with False t show ?thesis by (simp add: mask_row_def observed_def)
  qed
qed

lemma mask_select_one_hot:
  assumes "shape I = shape theta" and "list_all one_hot I"
  shows "prod_list (mask_select I theta) = likelihood I theta"
proof -
  from assms(1) have len: "length I = length theta"
    unfolding shape_def by (rule map_eq_imp_length_eq)
  have rows: "mask_row (I ! i) (theta ! i) = [theta ! i ! observed (I ! i)]" if "i < length I" for i
  proof -
    from that assms(2) have "one_hot (I ! i)" by (simp add: list_all_length)
    moreover from assms(1) that len have "length (I ! i) = length (theta ! i)"
      unfolding shape_def by (metis nth_map)
    ultimately show ?thesis by (rule mask_row_one_hot)
  qed
  have "mask_select I theta = concat (map (\<lambda>i. mask_row (I ! i) (theta ! i)) [0..<length I])"
    unfolding mask_select_def using len by (simp add: map2_nth_conv)
  also have "map (\<lambda>i. mask_row (I ! i) (theta ! i)) [0..<length I]
      = map (\<lambda>i. [theta ! i ! observed (I ! i)]) [0..<length I]"
    by (rule map_cong [OF refl]) (simp add: rows)
  also have "concat \<dots> = map (\<lambda>i. theta ! i ! observed (I ! i)) [0..<length I]"
    by (rule concat_map_singleton)
  finally show ?thesis by (simp add: likelihood_def)
qed

text \<open>
  Claim C3. For an indicator matrix \<open>I\<close> (exactly one true entry in each row) of the
  shape of both matrices, \<open>Z0_I\<close> returns Bayes' rule
  \<open>a_raw \<cdot> \<lambda> / (a_raw \<cdot> \<lambda> + b_raw \<cdot> (1 - \<lambda>))\<close> whenever the denominator is not zero,
  where \<open>a_raw\<close> and \<open>b_raw\<close> are the products, over all positions, of the entry
  that the motif matrix and the background matrix hold for the observed letter.
\<close>

theorem Z0_I_bayes:
  assumes "shape I = shape tm" and "shape I = shape tb" and "list_all one_hot I"
    and "a_raw = likelihood I tm" and "b_raw = likelihood I tb"
    and "a_raw * lam + b_raw * (1 - lam) \<noteq> 0"
  shows "Z0_I I tm tb lam = Inr ((a_raw * lam) / (a_raw * lam + b_raw * (1 - lam)))"
proof -
  have "pI_motif I tm = Inr a_raw"
    using assms(1,3,4) by (simp add: pI_motif_def mask_select_one_hot)
  moreover have "pI_background I tb = Inr b_raw"
    using assms(2,3,5) by (simp add: pI_background_def mask_select_one_hot)
  ultimately show ?thesis
    using assms(6) by (simp add: Z0_I_def Let_def)
qed

theorem Z0_I_bayes_witness:
  "Z0_I [[False, True, False, False]] [[1/8, 1/2, 1/8, 1/4]] [[1/4, 1/4, 1/4, 1/4]] (1/3) = Inr (1/2)"
  using Z0_I_bayes [of "[[False, True, False, False]]" "[[1/8, 1/2, 1/8, 1/4]]" "[[1/4, 1/4, 1/4, 1/4]]"
      "1/2" "1/4" "1/3"]
  by (simp add: shape_def one_hot_def likelihood_def observed_def upt_rec)

lemma mask_row_letter:
  assumes "length t = 4"
  shows "mask_row (map (\<lambda>k. c = k) ''ACGT'') t
           = (case nucleotide_index c of None \<Rightarrow> [] | Some j \<Rightarrow> [t ! j])"
proof -
  from assms obtain t0 t1 t2 t3 where t: "t = [t0, t1, t2, t3]"
    by (auto simp: length_Suc_conv numeral_eq_Suc)
  show ?thesis unfolding t by (simp add: mask_row_def nucleotide_index_def)
qed

lemma likelihood_sequenceToI:
  assumes "shape (sequenceToI X) = shape theta"
  shows "prod_list (mask_select (sequenceToI X) theta) = likelihood_known X theta"
proof -
  from assms have len: "length (sequenceToI X) = length theta"
    unfolding shape_def by (rule map_eq_imp_length_eq)
  have rows: "prod_list (mask_row (sequenceToI X ! i) (theta ! i))
      = (case nucleotide_index (X ! i) of None \<Rightarrow> 1 | Some j \<Rightarrow> theta ! i ! j)"
    if "i < length X" for i
  proof -
    from that len have "i < length theta" by (simp add: length_sequenceToI)
    with assms that have "length (theta ! i) = 4"
      by (metis shape_sequenceToI shape_def nth_map nth_replicate)
    then have "mask_row (map (\<lambda>k. X ! i = k) ''ACGT'') (theta ! i)
        = (case nucleotide_index (X ! i) of None \<Rightarrow> [] | Some j \<Rightarrow> [theta ! i ! j])"
      by (rule mask_row_letter)
    with that have "mask_row (sequenceToI X ! i) (theta ! i)
        = (case nucleotide_index (X ! i) of None \<Rightarrow> [] | Some j \<Rightarrow> [theta ! i ! j])"
      by (simp only: nth_sequenceToI)
    then show ?thesis by (simp split: option.split)
  qed
  have "prod_list (mask_select (sequenceToI X) theta)
      = prod_list (map (\<lambda>i. prod_list (mask_row (sequenceToI X ! i) (theta ! i))) [0..<length X])"
    by (simp add: mask_select_nth [OF len] prod_list_concat_map length_sequenceToI)
  also have "map (\<lambda>i. prod_list (mask_row (sequenceToI X ! i) (theta ! i))) [0..<length X]
      = map (\<lambda>i. case nucleotide_index (X ! i) of None \<Rightarrow> 1 | Some j \<Rightarrow> theta ! i ! j) [0..<length X]"
    by (rule map_cong [OF refl]) (simp add: rows)
  finally show ?thesis by (simp add: likelihood_known_def)
qed

text \<open>
  Claim C7, as stated, fails: in \<open>AN\<close> the row of \<open>N\<close> has no true entry, yet
  under uniform matrices both likelihoods are \<open>1/4\<close>, not 0. The boolean mask
  selects nothing in that row, so the row adds no factor to the product.
\<close>

theorem unknown_symbol_likelihood_example:
  "sequenceToI ''AN'' ! 1 = [False, False, False, False] \<and>
   pI_motif (sequenceToI ''AN'') [[1/4, 1/4, 1/4, 1/4], [1/4, 1/4, 1/4, 1/4]] = Inr (1/4) \<and>
   pI_background (sequenceToI ''AN'') [[1/4, 1/4, 1/4, 1/4], [1/4, 1/4, 1/4, 1/4]] = Inr (1/4)"
  by (simp add: pI_motif_def pI_background_def sequenceToI_def shape_def mask_select_def mask_row_def)

text \<open>
  Claim C7, amended. A symbol outside \<open>{A, C, G, T}\<close> gives a row with no true
  entry, and both likelihoods are the product of the entries selected at the
  recognised positions only: the unrecognised position is skipped (it counts as
  the factor 1), so the likelihood is not forced to 0.
\<close>

theorem unknown_symbol_skipped:
  assumes "i < length X" and "X ! i \<notin> set ''ACGT''"
    and "shape (sequenceToI X) = shape tm" and "shape (sequenceToI X) = shape tb"
  shows "sequenceToI X ! i = [False, False, False, False] \<and>
         nucleotide_index (X ! i) = None \<and>
         pI_motif (sequenceToI X) tm = Inr (likelihood_known X tm) \<and>
         pI_background (sequenceToI X) tb = Inr (likelihood_known X tb)"
proof (intro conjI)
  from assms(1,2) show "sequenceToI X ! i = [False, False, False, False]"
    by (simp add: nth_sequenceToI)
  from assms(2) show "nucleotide_index (X ! i) = None"
    by (simp add: nucleotide_index_def)
  from assms(3) show "pI_motif (sequenceToI X) tm = Inr (likelihood_known X tm)"
    by (simp add: pI_motif_def likelihood_sequenceToI)
  from assms(4) show "pI_background (sequenceToI X) tb = Inr (likelihood_known X tb)"
    by (simp add: pI_background_def likelihood_sequenceToI)
qed

theorem unknown_symbol_skipped_witness:
  "sequenceToI ''GNT'' ! 1 = [False, False, False, False] \<and>
   pI_motif (sequenceToI ''GNT'') [[0, 0, 1/2, 1/2], [1, 0, 0, 0], [1/8, 1/8, 1/4, 1/2]] = Inr (1/4) \<and>
   pI_background (sequenceToI ''GNT'') [[1/4, 1/4, 1/4, 1/4], [1/4, 1/4, 1/4, 1/4], [1/4, 1/4, 1/4, 1/4]] = Inr (1/16)"
  using unknown_symbol_skipped [of 1 "''GNT''" "[[0, 0, 1/2, 1/2], [1, 0, 0, 0], [1/8, 1/8, 1/4, 1/2]]"
      "[[1/4, 1/4, 1/4, 1/4], [1/4, 1/4, 1/4, 1/4], [1/4, 1/4, 1/4, 1/4]]"]
  by (simp add: shape_def sequenceToI_def likelihood_known_def nucleotide_index_def upt_rec)

subsection \<open>The responsibility\<close>

lemma Z0_I_value:
  assumes "pI_motif I tm = Inr a_raw" and "pI_background I tb = Inr b_raw"
    and "a_raw * lam + b_raw * (1 - lam) \<noteq> 0"
  shows "Z0_I I tm tb lam = Inr (a_raw * lam / (a_raw * lam + b_raw * (1 - lam)))"
  using assms by (simp add: Z0_I_def Let_def)

lemma Z0_I_Inr_shapes:
  assumes "Z0_I I tm tb lam = Inr Z"
  shows "shape I = shape tm" and "shape I = shape tb"
  using assms
  by (auto simp: Z0_I_def pI_motif_def pI_background_def Let_def split: if_splits sum.splits)

lemma mix_pos:
  fixes a b l :: real
  assumes "0 < a" "0 < b" "0 \<le> l" "l \<le> 1"
  shows "0 < a * l + b * (1 - l)"
proof (cases "l = 0")
  case True
  with assms show ?thesis by simp
next
  case False
  with assms have "0 < a * l" by simp
  moreover from assms have "0 \<le> b * (1 - l)" by simp
  ultimately show ?thesis by (rule add_pos_nonneg)
qed

lemma posterior_bounds:
  fixes a b l :: real
  assumes "0 < a" "0 < b" "0 \<le> l" "l \<le> 1"
  shows "0 \<le> a * l / (a * l + b * (1 - l))" and "a * l / (a * l + b * (1 - l)) \<le> 1"
proof -
  have d: "0 < a * l + b * (1 - l)" using assms by (rule mix_pos)
  from assms have n: "0 \<le> a * l" by simp
  from n d show "0 \<le> a * l / (a * l + b * (1 - l))" by simp
  from assms have "0 \<le> b * (1 - l)" by simp
  then have "a * l \<le> a * l + b * (1 - l)" by simp
  with d show "a * l / (a * l + b * (1 - l)) \<le> 1" by simp
qed

lemma posterior_mono:
  fixes a b l1 l2 :: real
  assumes "0 < a" "0 < b" "0 \<le> l1" "l1 \<le> l2" "l2 \<le> 1"
  shows "a * l1 / (a * l1 + b * (1 - l1)) \<le> a * l2 / (a * l2 + b * (1 - l2))"
    and "l1 < l2 \<Longrightarrow> a * l1 / (a * l1 + b * (1 - l1)) < a * l2 / (a * l2 + b * (1 - l2))"
proof -
  have d1: "0 < a * l1 + b * (1 - l1)" using assms by (intro mix_pos) simp_all
  have d2: "0 < a * l2 + b * (1 - l2)" using assms by (intro mix_pos) simp_all
  have key: "a * l2 * (a * l1 + b * (1 - l1)) - a * l1 * (a * l2 + b * (1 - l2)) = a * b * (l2 - l1)"
    by (simp add: algebra_simps)
  from assms have "0 \<le> a * b * (l2 - l1)" by simp
  with key have "a * l1 * (a * l2 + b * (1 - l2)) \<le> a * l2 * (a * l1 + b * (1 - l1))" by linarith
  with d1 d2 show "a * l1 / (a * l1 + b * (1 - l1)) \<le> a * l2 / (a * l2 + b * (1 - l2))"
    by (simp only: frac_cross)
  assume "l1 < l2"
  with assms have "0 < a * b * (l2 - l1)" by simp
  with key have "a * l1 * (a * l2 + b * (1 - l2)) < a * l2 * (a * l1 + b * (1 - l1))" by linarith
  with d1 d2 show "a * l1 / (a * l1 + b * (1 - l1)) < a * l2 / (a * l2 + b * (1 - l2))"
    by (simp only: frac_cross)
qed

text \<open>
  Claim C9. With strictly positive likelihoods \<open>a_raw\<close> and \<open>b_raw\<close>, \<open>Z0_I\<close> returns
  a value in \<open>[0, 1]\<close> for every mixture weight in \<open>[0, 1]\<close>, and that value grows
  with the weight (strictly, when the weight grows strictly).
\<close>

theorem Z0_I_unit_interval_monotone:
  assumes "pI_motif I tm = Inr a_raw" and "pI_background I tb = Inr b_raw"
    and "0 < a_raw" and "0 < b_raw"
  shows "(\<forall>lam. 0 \<le> lam \<and> lam \<le> 1 \<longrightarrow> (\<exists>z. Z0_I I tm tb lam = Inr z \<and> 0 \<le> z \<and> z \<le> 1)) \<and>
         (\<forall>l1 l2. 0 \<le> l1 \<and> l1 \<le> l2 \<and> l2 \<le> 1 \<longrightarrow>
            (\<exists>z1 z2. Z0_I I tm tb l1 = Inr z1 \<and> Z0_I I tm tb l2 = Inr z2 \<and> z1 \<le> z2 \<and> (l1 < l2 \<longrightarrow> z1 < z2)))"
proof (intro conjI allI impI)
  fix lam :: real
  assume l: "0 \<le> lam \<and> lam \<le> 1"
  then have "0 < a_raw * lam + b_raw * (1 - lam)" using assms(3,4) by (intro mix_pos) simp_all
  then have "Z0_I I tm tb lam = Inr (a_raw * lam / (a_raw * lam + b_raw * (1 - lam)))"
    using assms(1,2) by (intro Z0_I_value) simp_all
  moreover from l assms(3,4) have "0 \<le> a_raw * lam / (a_raw * lam + b_raw * (1 - lam))"
    by (intro posterior_bounds) simp_all
  moreover from l assms(3,4) have "a_raw * lam / (a_raw * lam + b_raw * (1 - lam)) \<le> 1"
    by (intro posterior_bounds) simp_all
  ultimately show "\<exists>z. Z0_I I tm tb lam = Inr z \<and> 0 \<le> z \<and> z \<le> 1" by blast
next
  fix l1 l2 :: real
  assume l: "0 \<le> l1 \<and> l1 \<le> l2 \<and> l2 \<le> 1"
  then have "0 < a_raw * l1 + b_raw * (1 - l1)" using assms(3,4) by (intro mix_pos) simp_all
  then have z1: "Z0_I I tm tb l1 = Inr (a_raw * l1 / (a_raw * l1 + b_raw * (1 - l1)))"
    using assms(1,2) by (intro Z0_I_value) simp_all
  from l have "0 < a_raw * l2 + b_raw * (1 - l2)" using assms(3,4) by (intro mix_pos) simp_all
  then have z2: "Z0_I I tm tb l2 = Inr (a_raw * l2 / (a_raw * l2 + b_raw * (1 - l2)))"
    using assms(1,2) by (intro Z0_I_value) simp_all
  from l assms(3,4)
  have le: "a_raw * l1 / (a_raw * l1 + b_raw * (1 - l1)) \<le> a_raw * l2 / (a_raw * l2 + b_raw * (1 - l2))"
    by (intro posterior_mono) simp_all
  from l assms(3,4)
  have less: "l1 < l2 \<longrightarrow> a_raw * l1 / (a_raw * l1 + b_raw * (1 - l1)) < a_raw * l2 / (a_raw * l2 + b_raw * (1 - l2))"
    by (auto intro!: posterior_mono)
  from z1 z2 le less
  show "\<exists>z1 z2. Z0_I I tm tb l1 = Inr z1 \<and> Z0_I I tm tb l2 = Inr z2 \<and> z1 \<le> z2 \<and> (l1 < l2 \<longrightarrow> z1 < z2)"
    by blast
qed

theorem Z0_I_unit_interval_monotone_witness:
  "(\<exists>z. Z0_I [[True, False, False, False]] [[1/2, 1/2, 0, 0]] [[1/4, 1/4, 1/4, 1/4]] (1/3) = Inr z \<and> 0 \<le> z \<and> z \<le> 1) \<and>
   (\<exists>z1 z2. Z0_I [[True, False, False, False]] [[1/2, 1/2, 0, 0]] [[1/4, 1/4, 1/4, 1/4]] (1/3) = Inr z1 \<and>
            Z0_I [[True, False, False, False]] [[1/2, 1/2, 0, 0]] [[1/4, 1/4, 1/4, 1/4]] (2/3) = Inr z2 \<and>
            z1 \<le> z2 \<and> z1 < z2)"
proof -
  have a: "pI_motif [[True, False, False, False]] [[1/2, 1/2, 0, 0]] = Inr (1/2)"
    by (simp add: pI_motif_def shape_def mask_select_def mask_row_def)
  have b: "pI_background [[True, False, False, False]] [[1/4, 1/4, 1/4, 1/4]] = Inr (1/4)"
    by (simp add: pI_background_def shape_def mask_select_def mask_row_def)
  note inst = Z0_I_unit_interval_monotone [OF a b]
  have both: "(\<forall>lam. 0 \<le> lam \<and> lam \<le> 1 \<longrightarrow>
        (\<exists>z. Z0_I [[True, False, False, False]] [[1/2, 1/2, 0, 0]] [[1/4, 1/4, 1/4, 1/4]] lam = Inr z \<and> 0 \<le> z \<and> z \<le> 1)) \<and>
      (\<forall>l1 l2. 0 \<le> l1 \<and> l1 \<le> l2 \<and> l2 \<le> 1 \<longrightarrow>
        (\<exists>z1 z2. Z0_I [[True, False, False, False]] [[1/2, 1/2, 0, 0]] [[1/4, 1/4, 1/4, 1/4]] l1 = Inr z1 \<and>
                 Z0_I [[True, False, False, False]] [[1/2, 1/2, 0, 0]] [[1/4, 1/4, 1/4, 1/4]] l2 = Inr z2 \<and>
                 z1 \<le> z2 \<and> (l1 < l2 \<longrightarrow> z1 < z2)))"
    by (rule inst) simp_all
  from both have "\<exists>z. Z0_I [[True, False, False, False]] [[1/2, 1/2, 0, 0]] [[1/4, 1/4, 1/4, 1/4]] (1/3) = Inr z \<and> 0 \<le> z \<and> z \<le> 1"
    by simp
  moreover from both have "\<exists>z1 z2. Z0_I [[True, False, False, False]] [[1/2, 1/2, 0, 0]] [[1/4, 1/4, 1/4, 1/4]] (1/3) = Inr z1 \<and>
            Z0_I [[True, False, False, False]] [[1/2, 1/2, 0, 0]] [[1/4, 1/4, 1/4, 1/4]] (2/3) = Inr z2 \<and>
            z1 \<le> z2 \<and> ((1/3::real) < 2/3 \<longrightarrow> z1 < z2)"
    by (elim conjE allE [where x = "1/3"] allE [where x = "2/3"]) simp
  ultimately show ?thesis by simp
qed

text \<open>
  Claim C6, as stated, fails: for the sequence \<open>A\<close> and two matrices that give
  \<open>A\<close> probability 0, both likelihoods are 0 and \<open>Z0_I\<close> has no fallback value;
  the division by zero is its result.
\<close>

theorem Z0_I_zero_likelihoods_example:
  "pI_motif (sequenceToI ''A'') [[0, 1, 0, 0]] = Inr 0 \<and>
   pI_background (sequenceToI ''A'') [[0, 1, 0, 0]] = Inr 0 \<and>
   Z0_I (sequenceToI ''A'') [[0, 1, 0, 0]] [[0, 1, 0, 0]] (1/2) = Inl DivisionByZero"
  by (simp add: Z0_I_def pI_motif_def pI_background_def sequenceToI_def shape_def
      mask_select_def mask_row_def)

subsection \<open>The batch M-step divides each row by its sum\<close>

lemma Z_total_fold:
  "foldl (\<lambda>Z_total Zi. foldl (\<lambda>Z_total Zij. Z_total + Zij) Z_total Zi) acc Z
     = acc + sum_list (concat Z)"
  for acc :: real
proof (induction Z arbitrary: acc)
  case Nil
  show ?case by simp
next
  case (Cons Zi Z)
  have inner: "foldl (\<lambda>Z_total Zij. Z_total + Zij) a Zi = a + sum_list Zi" for a :: real
    by (induction Zi arbitrary: a) simp_all
  show ?case by (simp add: Cons.IH inner)
qed

lemma diag_row_times_column:
  fixes v col :: "real list" and x :: real
  assumes "i < length v" and "length col = length v"
  shows "sum_list (map2 (*) (map (\<lambda>j. if j = i then x else 0) [0..<length v]) col) = x * col ! i"
proof -
  have "map2 (*) (map (\<lambda>j. if j = i then x else 0) [0..<length v]) col
      = map (\<lambda>j. (if j = i then x else 0) * col ! j) [0..<length v]"
    using assms(2) by (intro nth_equalityI) simp_all
  then show ?thesis by (simp only: sum_list_delta [OF assms(1)])
qed

lemma length_diag: "length (diag v) = length v"
  by (simp add: diag_def)

lemma dot_diag:
  assumes "length v = length B" and "list_all (\<lambda>row. length row = ncols B) B"
  shows "dot (diag v) B = map (\<lambda>i. map (\<lambda>x. v ! i * x) (B ! i)) [0..<length B]"
proof (rule nth_equalityI)
  show "length (dot (diag v) B) = length (map (\<lambda>i. map (\<lambda>x. v ! i * x) (B ! i)) [0..<length B])"
    using assms(1) by (simp add: dot_def diag_def)
next
  fix i assume "i < length (dot (diag v) B)"
  then have i: "i < length B" using assms(1) by (simp add: dot_def diag_def)
  with assms(1) have iv: "i < length v" by simp
  from i assms(2) have len_row: "length (B ! i) = ncols B" by (simp add: list_all_length)
  have row: "diag v ! i = map (\<lambda>j. if j = i then v ! i else 0) [0..<length v]"
    using iv by (simp add: diag_def)
  have entry: "sum_list (map2 (*) (diag v ! i) (column B j)) = v ! i * (B ! i ! j)" for j
  proof -
    have "length (column B j) = length v" using assms(1) by (simp add: column_def)
    with iv have "sum_list (map2 (*) (map (\<lambda>j. if j = i then v ! i else 0) [0..<length v]) (column B j))
        = v ! i * column B j ! i"
      by (rule diag_row_times_column)
    moreover have "column B j ! i = B ! i ! j" using i by (simp add: column_def)
    ultimately show ?thesis by (simp only: row)
  qed
  have "dot (diag v) B ! i = map (\<lambda>j. sum_list (map2 (*) (diag v ! i) (column B j))) [0..<ncols B]"
    using iv by (simp add: dot_def length_diag)
  also have "\<dots> = map (\<lambda>j. v ! i * (B ! i ! j)) [0..<ncols B]"
    by (simp only: entry)
  also have "\<dots> = map (\<lambda>x. v ! i * x) (B ! i)"
    using len_row by (intro nth_equalityI) simp_all
  finally show "dot (diag v) B ! i = map (\<lambda>i. map (\<lambda>x. v ! i * x) (B ! i)) [0..<length B] ! i"
    using i by simp
qed

lemma normalise_rows:
  fixes B :: matrix
  shows "map (\<lambda>i. map (\<lambda>x. map (\<lambda>s. 1 / s) (map sum_list B) ! i * x) (B ! i)) [0..<length B]
     = map (\<lambda>row. map (\<lambda>x. x / sum_list row) row) B"
  by (rule nth_equalityI) (simp_all add: divide_inverse mult.commute)

text \<open>
  Claim C8. For a count \<open>N \<noteq> 0\<close>, a vector \<open>c0\<close> as long as the rows of \<open>c\<close>, and
  no row of the stacked matrix summing to 0, \<open>M\<close> returns the sum of all \<open>Z\<close>
  values divided by \<open>N\<close>, the rows of \<open>c\<close> each divided by its own sum as the motif
  matrix, and \<open>c0\<close> divided by its sum, repeated once per row of \<open>c\<close>, as the
  background matrix.
\<close>

theorem M_closed_form:
  assumes "N \<noteq> 0"
    and "list_all (\<lambda>row. length row = length c0) c"
    and "sum_list c0 \<noteq> 0" and "list_all (\<lambda>row. sum_list row \<noteq> 0) c"
  shows "M Z N c0 c =
           Inr (sum_list (concat Z) / of_int N,
                map (\<lambda>row. map (\<lambda>x. x / sum_list row) row) c,
                replicate (length c) (map (\<lambda>x. x / sum_list c0) c0))"
proof -
  let ?B = "[c0] @ c"
  have rect: "list_all (\<lambda>row. length row = ncols ?B) ?B"
    using assms(2) by (simp add: ncols_def)
  have nz: "0 \<notin> set (map sum_list ?B)"
    using assms(3,4) by (auto simp: list_all_iff)
  have "dot (diag (map (\<lambda>s. 1 / s) (map sum_list ?B))) ?B
      = map (\<lambda>i. map (\<lambda>x. map (\<lambda>s. 1 / s) (map sum_list ?B) ! i * x) (?B ! i)) [0..<length ?B]"
    using rect by (intro dot_diag) simp_all
  also have "\<dots> = map (\<lambda>row. map (\<lambda>x. x / sum_list row) row) ?B"
    by (rule normalise_rows)
  finally have f: "dot (diag (map (\<lambda>s. 1 / s) (map sum_list ?B))) ?B
      = map (\<lambda>row. map (\<lambda>x. x / sum_list row) row) ?B" .
  have Zt: "foldl (\<lambda>Z_total Zi. foldl (\<lambda>Z_total Zij. Z_total + Zij) Z_total Zi) 0 Z
      = sum_list (concat Z)"
    by (simp add: Z_total_fold)
  show ?thesis
    unfolding M_def Let_def Zt f using assms(1,2) nz
    by (simp add: repeat_rows_def)
qed

theorem M_closed_form_witness:
  "M [[1/2], [1/4]] 2 [1, 1, 1, 1] [[1, 0, 1, 0], [0, 3, 0, 1]]
     = Inr (3/8, [[1/2, 0, 1/2, 0], [0, 3/4, 0, 1/4]],
            [[1/4, 1/4, 1/4, 1/4], [1/4, 1/4, 1/4, 1/4]])"
  using M_closed_form [of 2 "[1, 1, 1, 1]" "[[1, 0, 1, 0], [0, 3, 0, 1]]" "[[1/2], [1/4]]"]
  by (simp add: numeral_2_eq_2)

subsection \<open>One iteration of the online estimator\<close>

lemma row_update:
  fixes a :: "real list"
  assumes "length a = length r"
  shows "map2 (+) a (map (\<lambda>x. k * x) (map2 (-) (map (\<lambda>b. z * of_bool b) r) a))
           = map2 (\<lambda>s b. s + k * (z * of_bool b - s)) a r"
  using assms by (intro nth_equalityI) simp_all

lemma matrix_update:
  assumes "shape A = shape I"
  shows "mat_add A (mat_scale k (mat_sub (mask_scale z I) A))
           = map2 (map2 (\<lambda>s b. s + k * (z * of_bool b - s))) A I"
proof (rule nth_equalityI)
  from assms have len: "length A = length I" by (rule shape_length)
  then show "length (mat_add A (mat_scale k (mat_sub (mask_scale z I) A)))
      = length (map2 (map2 (\<lambda>s b. s + k * (z * of_bool b - s))) A I)"
    by (simp add: mat_add_def mat_scale_def mat_sub_def mask_scale_def)
  fix i assume "i < length (mat_add A (mat_scale k (mat_sub (mask_scale z I) A)))"
  with len have i: "i < length A" "i < length I"
    by (simp_all add: mat_add_def mat_scale_def mat_sub_def mask_scale_def)
  from assms i(1) have "length (A ! i) = length (I ! i)" by (rule shape_row)
  then have row: "map2 (+) (A ! i) (map (\<lambda>x. k * x) (map2 (-) (map (\<lambda>b. z * of_bool b) (I ! i)) (A ! i)))
      = map2 (\<lambda>s b. s + k * (z * of_bool b - s)) (A ! i) (I ! i)"
    by (rule row_update)
  have lhs: "mat_add A (mat_scale k (mat_sub (mask_scale z I) A)) ! i
      = map2 (+) (A ! i) (map (\<lambda>x. k * x) (map2 (-) (map (\<lambda>b. z * of_bool b) (I ! i)) (A ! i)))"
    using i by (simp add: mat_add_def mat_scale_def mat_sub_def mask_scale_def)
  have rhs: "map2 (map2 (\<lambda>s b. s + k * (z * of_bool b - s))) A I ! i
      = map2 (\<lambda>s b. s + k * (z * of_bool b - s)) (A ! i) (I ! i)"
    using i by simp
  show "mat_add A (mat_scale k (mat_sub (mask_scale z I) A)) ! i
      = map2 (map2 (\<lambda>s b. s + k * (z * of_bool b - s))) A I ! i"
    by (simp only: lhs rhs row)
qed

lemma shape_matrix_update:
  assumes "shape A = shape I"
  shows "shape (mat_add A (mat_scale k (mat_sub (mask_scale z I) A))) = shape I"
proof -
  from assms have len: "length A = length I" by (rule shape_length)
  have "shape (map2 (map2 (\<lambda>s b. s + k * (z * of_bool b - s))) A I) = shape I"
    unfolding shape_def
  proof (rule nth_equalityI)
    show "length (map length (map2 (map2 (\<lambda>s b. s + k * (z * of_bool b - s))) A I)) = length (map length I)"
      using len by simp
    fix i assume "i < length (map length (map2 (map2 (\<lambda>s b. s + k * (z * of_bool b - s))) A I))"
    with len have i: "i < length A" "i < length I" by simp_all
    from assms i(1) have "length (A ! i) = length (I ! i)" by (rule shape_row)
    with i show "map length (map2 (map2 (\<lambda>s b. s + k * (z * of_bool b - s))) A I) ! i = map length I ! i"
      by simp
  qed
  with assms show ?thesis by (simp add: matrix_update)
qed

lemma Online_E_step_Inr:
  assumes "Z0_I I (theta_motif st) (theta_background_matrix st) (lambda_motif st) = Inr Z"
    and "shape (s1_2 st) = shape I" and "shape (s2_2 st) = shape I"
  shows "Online_E_step st I =
           Inr (st\<lparr>s1_1 := ewma (s1_1 st) Z,
                   s1_2 := map2 (map2 (\<lambda>s b. ewma s (Z * of_bool b))) (s1_2 st) I,
                   s2_2 := map2 (map2 (\<lambda>s b. ewma s ((1 - Z) * of_bool b))) (s2_2 st) I\<rparr>)"
  using assms by (simp add: Online_E_step_def Let_def matrix_update ewma_def)

lemma Online_E_step_post:
  assumes "Online_E_step st I = Inr st1"
  shows "shape (s1_2 st1) = shape I" and "shape (s2_2 st1) = shape I"
  using assms
  by (auto simp: Online_E_step_def Let_def shape_matrix_update split: sum.splits if_splits)

lemma Online_M_step_fields:
  assumes "Online_M_step W st1 = Inr st2"
  shows "s1_1 st2 = s1_1 st1" and "s1_2 st2 = s1_2 st1" and "s2_2 st2 = s2_2 st1"
    and "lambda_motif st2 = s1_1 st1" and "theta_motif st2 = s1_2 st1"
    and "theta_background_matrix st2 =
           replicate W (map (\<lambda>x. x / sum_list (colsum (s2_2 st1))) (colsum (s2_2 st1)))"
  using assms by (auto simp: Online_M_step_def Let_def repeat_rows_def split: if_splits)

lemma Online_iter_post:
  assumes "Online_iter W st y = Inr st'"
  shows "lambda_motif st' = s1_1 st'" and "theta_motif st' = s1_2 st'"
    and "theta_background_matrix st' =
           replicate W (map (\<lambda>x. x / sum_list (colsum (s2_2 st'))) (colsum (s2_2 st')))"
    and "shape (s2_2 st') = shape (s1_2 st')"
proof -
  from assms obtain st1 st2 where e: "Online_E_step st (sequenceToI y) = Inr st1"
    and m: "Online_M_step W st1 = Inr st2" and st': "st' = st2\<lparr>n := n st2 + 1\<rparr>"
    by (auto simp: Online_iter_def Let_def split: sum.splits)
  note f = Online_M_step_fields [OF m]
  show "lambda_motif st' = s1_1 st'" by (simp add: st' f)
  show "theta_motif st' = s1_2 st'" by (simp add: st' f)
  show "theta_background_matrix st' =
           replicate W (map (\<lambda>x. x / sum_list (colsum (s2_2 st'))) (colsum (s2_2 st')))"
    by (simp add: st' f)
  show "shape (s2_2 st') = shape (s1_2 st')"
    by (simp add: st' f Online_E_step_post [OF e])
qed

lemma Online_loop_append:
  "Online_loop W st Ys = Inr st' \<Longrightarrow> Online_loop W st (Ys @ Zs) = Online_loop W st' Zs"
  by (induction Ys arbitrary: st) (simp_all split: sum.splits error.splits)

lemma Online_loop_one:
  "Online_loop W st [y] = Inr st' \<longleftrightarrow> Online_iter W st y = Inr st'"
  by (auto split: sum.splits error.splits)

lemma Online_loop_snoc:
  assumes "Online_loop W st (Ys @ [y]) = Inr st''"
  shows "\<exists>st'. Online_loop W st Ys = Inr st' \<and> Online_iter W st' y = Inr st''"
  using assms
proof (induction Ys arbitrary: st)
  case Nil
  then have "Online_loop W st [y] = Inr st''" by simp
  then show ?case by (simp only: Online_loop_one Online_loop.simps(1)) simp
next
  case (Cons z Ys)
  then show ?case by (auto split: sum.splits error.splits)
qed

lemma reachable_inv:
  assumes "Online_loop W (init_state tm tb lam) Ys = Inr st"
  shows "lambda_motif st = s1_1 st" and "theta_motif st = s1_2 st"
    and "Ys = [] \<Longrightarrow> theta_background_matrix st = tb \<and> s2_2 st = tb"
    and "Ys \<noteq> [] \<Longrightarrow> theta_background_matrix st =
           replicate W (map (\<lambda>x. x / sum_list (colsum (s2_2 st))) (colsum (s2_2 st))) \<and>
           shape (s2_2 st) = shape (s1_2 st)"
proof -
  have "(lambda_motif st = s1_1 st \<and> theta_motif st = s1_2 st) \<and>
        (Ys = [] \<longrightarrow> theta_background_matrix st = tb \<and> s2_2 st = tb) \<and>
        (Ys \<noteq> [] \<longrightarrow> theta_background_matrix st =
           replicate W (map (\<lambda>x. x / sum_list (colsum (s2_2 st))) (colsum (s2_2 st))) \<and>
           shape (s2_2 st) = shape (s1_2 st))"
  proof (cases Ys rule: rev_cases)
    case Nil
    with assms have "st = init_state tm tb lam" by simp
    with Nil show ?thesis by (simp add: init_state_def)
  next
    case (snoc Ys' y)
    with assms obtain st0 where "Online_iter W st0 y = Inr st"
      by (auto dest: Online_loop_snoc)
    from Online_iter_post [OF this] snoc show ?thesis by simp
  qed
  then show "lambda_motif st = s1_1 st" and "theta_motif st = s1_2 st"
    and "Ys = [] \<Longrightarrow> theta_background_matrix st = tb \<and> s2_2 st = tb"
    and "Ys \<noteq> [] \<Longrightarrow> theta_background_matrix st =
           replicate W (map (\<lambda>x. x / sum_list (colsum (s2_2 st))) (colsum (s2_2 st))) \<and>
           shape (s2_2 st) = shape (s1_2 st)"
    by simp_all
qed

lemma Online_iter_shape:
  assumes "Online_iter W st y = Inr st'" and "theta_motif st = s1_2 st"
  shows "shape (s1_2 st') = shape (s1_2 st)"
proof -
  from assms(1) obtain st1 st2 where e: "Online_E_step st (sequenceToI y) = Inr st1"
    and m: "Online_M_step W st1 = Inr st2" and st': "st' = st2\<lparr>n := n st2 + 1\<rparr>"
    by (auto simp: Online_iter_def Let_def split: sum.splits)
  from e obtain Z where "Z0_I (sequenceToI y) (theta_motif st) (theta_background_matrix st) (lambda_motif st) = Inr Z"
    by (auto simp: Online_E_step_def Let_def split: sum.splits)
  then have "shape (sequenceToI y) = shape (theta_motif st)" by (rule Z0_I_Inr_shapes)
  moreover have "shape (s1_2 st1) = shape (sequenceToI y)" using e by (rule Online_E_step_post)
  moreover have "s1_2 st' = s1_2 st1" by (simp add: st' Online_M_step_fields [OF m])
  ultimately show ?thesis using assms(2) by simp
qed

lemma Online_loop_shape:
  assumes "Online_loop W st Ys = Inr st'" and "theta_motif st = s1_2 st"
  shows "shape (s1_2 st') = shape (s1_2 st) \<and> theta_motif st' = s1_2 st'"
  using assms
proof (induction Ys arbitrary: st)
  case Nil
  then show ?case by simp
next
  case (Cons y Ys)
  from Cons.prems(1) obtain st1 where i: "Online_iter W st y = Inr st1"
    and l: "Online_loop W st1 Ys = Inr st'"
    by (auto split: sum.splits error.splits)
  from Online_iter_post(2) [OF i] have t1: "theta_motif st1 = s1_2 st1" .
  from Cons.IH [OF l t1] Online_iter_shape [OF i Cons.prems(2)] show ?case by simp
qed

lemma reachable_shape:
  assumes "Online_loop W (init_state tm tb lam) Ys = Inr st"
  shows "shape (s1_2 st) = shape tm"
  using Online_loop_shape [OF assms] by (simp add: init_state_def)

text \<open>
  Claim C1, as stated, fails in its first part. After the sequence \<open>A\<close> has been
  consumed (width 1, uniform matrices, weight \<open>1/2\<close>), taking \<open>s1_1\<close>, \<open>s1_2\<close>,
  \<open>s2_2\<close> as the model would give the responsibility \<open>1/2\<close> for a second \<open>A\<close>; the
  code calls \<open>Z0_I\<close> with the rebuilt background matrix instead, gets \<open>23/63\<close>, and
  moves \<open>s1_1\<close> towards that value.
\<close>

theorem Online_E_step_second_sequence:
  "Online_loop 1 (init_state [[1/4, 1/4, 1/4, 1/4]] [[1/4, 1/4, 1/4, 1/4]] (1/2)) [''A'']
     = Inr \<lparr>s1_1 = 1/2, s1_2 = [[37/80, 3/80, 3/80, 3/80]], s2_2 = [[37/80, 3/80, 3/80, 3/80]],
            lambda_motif = 1/2, theta_motif = [[37/80, 3/80, 3/80, 3/80]],
            theta_background_matrix = [[37/46, 3/46, 3/46, 3/46]], n = 2\<rparr> \<and>
   Z0_I (sequenceToI ''A'') [[37/80, 3/80, 3/80, 3/80]] [[37/80, 3/80, 3/80, 3/80]] (1/2) = Inr (1/2) \<and>
   Z0_I (sequenceToI ''A'') [[37/80, 3/80, 3/80, 3/80]] [[37/46, 3/46, 3/46, 3/46]] (1/2) = Inr (23/63) \<and>
   Online_E_step
     \<lparr>s1_1 = 1/2, s1_2 = [[37/80, 3/80, 3/80, 3/80]], s2_2 = [[37/80, 3/80, 3/80, 3/80]],
      lambda_motif = 1/2, theta_motif = [[37/80, 3/80, 3/80, 3/80]],
      theta_background_matrix = [[37/46, 3/46, 3/46, 3/46]], n = 2\<rparr>
     (sequenceToI ''A'')
   = Inr \<lparr>s1_1 = 1/2 + 17/20 * (23/63 - 1/2),
          s1_2 = [[38273/100800, 9/1600, 9/1600, 9/1600]],
          s2_2 = [[61393/100800, 9/1600, 9/1600, 9/1600]],
          lambda_motif = 1/2, theta_motif = [[37/80, 3/80, 3/80, 3/80]],
          theta_background_matrix = [[37/46, 3/46, 3/46, 3/46]], n = 2\<rparr>"
  by (simp add: init_state_def Online_iter_def Online_E_step_def Online_M_step_def Z0_I_def
      pI_motif_def pI_background_def sequenceToI_def shape_def mask_select_def mask_row_def
      mask_scale_def mat_add_def mat_scale_def mat_sub_def colsum_def column_def ncols_def
      repeat_rows_def Let_def)

text \<open>
  Claim C1, amended. In every state the loop of \<open>Online_EM\<close> reaches, the
  responsibility \<open>Z\<close> of the next sequence is computed from \<open>lambda_motif = s1_1\<close>,
  \<open>theta_motif = s1_2\<close> and the current \<open>theta_background_matrix\<close>, which is the
  initial guess before the first sequence and afterwards the normalised column
  sums of \<open>s2_2\<close> on every row (not \<open>s2_2\<close> itself). Whenever that \<open>Z\<close> is defined,
  the E-step succeeds, the shapes agree, and each accumulator \<open>s\<close> becomes
  \<open>s + 17/20 \<cdot> (ds - s) = 3/20 \<cdot> s + 17/20 \<cdot> ds\<close> with \<open>ds1_1 = Z\<close>, \<open>ds1_2 = Z \<cdot> I\<close> and
  \<open>ds2_2 = (1 - Z) \<cdot> I\<close>, entry by entry.
\<close>

theorem Online_E_step_update:
  assumes "Online_loop W (init_state tm tb lam) Ys = Inr st"
    and "Z0_I (sequenceToI y) (s1_2 st) (theta_background_matrix st) (s1_1 st) = Inr Z"
  shows "Online_E_step st (sequenceToI y) =
           Inr (st\<lparr>s1_1 := ewma (s1_1 st) Z,
                   s1_2 := map2 (map2 (\<lambda>s b. ewma s (Z * of_bool b))) (s1_2 st) (sequenceToI y),
                   s2_2 := map2 (map2 (\<lambda>s b. ewma s ((1 - Z) * of_bool b))) (s2_2 st) (sequenceToI y)\<rparr>) \<and>
         shape (s1_2 st) = shape (sequenceToI y) \<and> shape (s2_2 st) = shape (sequenceToI y) \<and>
         lambda_motif st = s1_1 st \<and> theta_motif st = s1_2 st \<and>
         theta_background_matrix st =
           (if Ys = [] then tb
            else replicate W (map (\<lambda>x. x / sum_list (colsum (s2_2 st))) (colsum (s2_2 st)))) \<and>
         (\<forall>s ds. ewma s ds = 3 / 20 * s + 17 / 20 * ds)"
proof -
  note inv = reachable_inv [OF assms(1)]
  from assms(2) have sh: "shape (sequenceToI y) = shape (s1_2 st)"
    "shape (sequenceToI y) = shape (theta_background_matrix st)"
    by (rule Z0_I_Inr_shapes)+
  have sh2: "shape (s2_2 st) = shape (sequenceToI y)"
  proof (cases "Ys = []")
    case True
    with inv(3) sh(2) show ?thesis by simp
  next
    case False
    with inv(4) sh(1) show ?thesis by simp
  qed
  from assms(2) inv(1,2)
  have "Z0_I (sequenceToI y) (theta_motif st) (theta_background_matrix st) (lambda_motif st) = Inr Z"
    by simp
  then have "Online_E_step st (sequenceToI y) =
           Inr (st\<lparr>s1_1 := ewma (s1_1 st) Z,
                   s1_2 := map2 (map2 (\<lambda>s b. ewma s (Z * of_bool b))) (s1_2 st) (sequenceToI y),
                   s2_2 := map2 (map2 (\<lambda>s b. ewma s ((1 - Z) * of_bool b))) (s2_2 st) (sequenceToI y)\<rparr>)"
    using sh(1) sh2 by (intro Online_E_step_Inr) simp_all
  moreover have "theta_background_matrix st =
           (if Ys = [] then tb
            else replicate W (map (\<lambda>x. x / sum_list (colsum (s2_2 st))) (colsum (s2_2 st))))"
    using inv(3,4) by simp
  moreover have "\<forall>s ds. ewma s ds = 3 / 20 * s + 17 / 20 * ds"
    unfolding ewma_def by (intro allI) argo
  ultimately show ?thesis using sh(1) sh2 inv(1,2) by simp
qed

theorem Online_E_step_update_witness:
  "Online_E_step
     \<lparr>s1_1 = 1/2, s1_2 = [[1/4, 1/4, 1/4, 1/4]], s2_2 = [[1/4, 1/4, 1/4, 1/4]],
      lambda_motif = 1/2, theta_motif = [[1/4, 1/4, 1/4, 1/4]],
      theta_background_matrix = [[1/4, 1/4, 1/4, 1/4]], n = 1\<rparr>
     (sequenceToI ''A'')
   = Inr \<lparr>s1_1 = 1/2, s1_2 = [[37/80, 3/80, 3/80, 3/80]], s2_2 = [[37/80, 3/80, 3/80, 3/80]],
          lambda_motif = 1/2, theta_motif = [[1/4, 1/4, 1/4, 1/4]],
          theta_background_matrix = [[1/4, 1/4, 1/4, 1/4]], n = 1\<rparr>"
proof -
  have loop: "Online_loop 1 (init_state [[1/4, 1/4, 1/4, 1/4]] [[1/4, 1/4, 1/4, 1/4]] (1/2)) []
      = Inr (init_state [[1/4, 1/4, 1/4, 1/4]] [[1/4, 1/4, 1/4, 1/4]] (1/2))"
    by simp
  have z: "Z0_I (sequenceToI ''A'')
        (s1_2 (init_state [[1/4, 1/4, 1/4, 1/4]] [[1/4, 1/4, 1/4, 1/4]] (1/2)))
        (theta_background_matrix (init_state [[1/4, 1/4, 1/4, 1/4]] [[1/4, 1/4, 1/4, 1/4]] (1/2)))
        (s1_1 (init_state [[1/4, 1/4, 1/4, 1/4]] [[1/4, 1/4, 1/4, 1/4]] (1/2))) = Inr (1/2)"
    by (simp add: init_state_def Z0_I_def pI_motif_def pI_background_def sequenceToI_def shape_def
        mask_select_def mask_row_def)
  from Online_E_step_update [OF loop z] show ?thesis
    by (simp add: init_state_def sequenceToI_def ewma_def)
qed

subsection \<open>A division by zero is carried through the run\<close>

lemma ncols_sequenceToI: "y \<noteq> [] \<Longrightarrow> ncols (sequenceToI y) = 4"
  by (cases y) (simp_all add: ncols_def sequenceToI_def)

lemma replicate_eq_length: "replicate a (c::nat) = replicate b c \<longleftrightarrow> a = b"
  by (metis length_replicate)

lemma nan_step_condition:
  assumes "length y = W"
  shows "(shape (sequenceToI z) = shape (sequenceToI y) \<and>
          shape (sequenceToI z) = replicate W (ncols (sequenceToI y))) \<longleftrightarrow> length z = length y"
proof (cases "y = []")
  case True
  with assms show ?thesis by (auto simp: shape_sequenceToI)
next
  case False
  with assms show ?thesis
    by (auto simp: shape_sequenceToI ncols_sequenceToI replicate_eq_length)
qed

lemma Online_nan_loop_lengths:
  assumes "length y = W"
  shows "Online_nan_loop W (sequenceToI y) Zs =
           (if list_all (\<lambda>z. length z = length y) Zs then DivisionByZero else IndexError)"
  using assms
proof (induction Zs arbitrary: y)
  case Nil
  show ?case by simp
next
  case (Cons z Zs)
  show ?case
  proof (cases "length z = length y")
    case True
    with Cons.prems have zW: "length z = W" by simp
    from True nan_step_condition [OF Cons.prems, of z]
    have "shape (sequenceToI z) = shape (sequenceToI y) \<and>
        shape (sequenceToI z) = replicate W (ncols (sequenceToI y))" by blast
    then have c: "shape (sequenceToI z) = shape (sequenceToI y)"
      "shape (sequenceToI z) = replicate W (ncols (sequenceToI y))" by blast+
    have "Online_nan_loop W (sequenceToI y) (z # Zs) = Online_nan_loop W (sequenceToI z) Zs"
      unfolding Online_nan_loop.simps Let_def
      by (subst if_P [OF c(1)], subst if_P [OF c(2)]) (rule refl)
    also have "\<dots> = (if list_all (\<lambda>z'. length z' = length z) Zs then DivisionByZero else IndexError)"
      by (rule Cons.IH [OF zW])
    finally show ?thesis using True by simp
  next
    case False
    with nan_step_condition [OF Cons.prems, of z]
    have "\<not> (shape (sequenceToI z) = shape (sequenceToI y) \<and>
          shape (sequenceToI z) = replicate W (ncols (sequenceToI y)))" by simp
    then have "Online_nan_loop W (sequenceToI y) (z # Zs) = IndexError"
      by (auto simp: Let_def)
    with False show ?thesis by simp
  qed
qed

lemma zero_likelihoods_Z0_I:
  assumes "pI_motif I tm' = Inr 0" and "pI_background I tb' = Inr 0"
  shows "Z0_I I tm' tb' l = Inl DivisionByZero"
  using assms by (simp add: Z0_I_def)

text \<open>
  Claim C6, amended. When both likelihoods are 0, \<open>Z0_I\<close> divides by zero for every
  mixture weight: no fallback responsibility is computed. In a run of \<open>Online_EM\<close>
  the iteration that meets such a sequence yields no real-valued state, and the
  run returns no real-valued model whatever follows: the triple holding \<^verbatim>\<open>nan\<close>
  when all later sequences have the length of that sequence, and the
  \<^verbatim>\<open>IndexError\<close> of a later sequence of another length otherwise.
\<close>

theorem Z0_I_zero_likelihoods:
  assumes "pI_motif I tm' = Inr 0" and "pI_background I tb' = Inr 0"
  shows "Z0_I I tm' tb' l = Inl DivisionByZero \<and>
         (\<forall>Ys y tm tb lam st Zs.
            Online_loop (length tm) (init_state tm tb lam) Ys = Inr st \<and>
            I = sequenceToI y \<and> tm' = theta_motif st \<and> tb' = theta_background_matrix st \<longrightarrow>
            Online_iter (length tm) st y = Inl DivisionByZero \<and>
            Online_EM (Ys @ y # Zs) tm tb lam =
              (if list_all (\<lambda>z. length z = length y) Zs then Inl DivisionByZero else Inl IndexError))"
proof (intro conjI allI impI)
  show "Z0_I I tm' tb' l = Inl DivisionByZero"
    using assms by (rule zero_likelihoods_Z0_I)
next
  fix Ys y tm tb lam st Zs
  assume h: "Online_loop (length tm) (init_state tm tb lam) Ys = Inr st \<and>
            I = sequenceToI y \<and> tm' = theta_motif st \<and> tb' = theta_background_matrix st"
  then have run: "Online_loop (length tm) (init_state tm tb lam) Ys = Inr st" by simp
  from h assms have z: "Z0_I (sequenceToI y) (theta_motif st) (theta_background_matrix st) (lambda_motif st)
      = Inl DivisionByZero"
    by (simp add: zero_likelihoods_Z0_I)
  then have e: "Online_E_step st (sequenceToI y) = Inl DivisionByZero"
    by (simp add: Online_E_step_def Let_def)
  then show it: "Online_iter (length tm) st y = Inl DivisionByZero"
    by (simp add: Online_iter_def Let_def)
  from h assms(1) have "shape (sequenceToI y) = shape (theta_motif st)"
    by (auto simp: pI_motif_def split: if_splits)
  also have "\<dots> = shape (s1_2 st)" using reachable_inv(2) [OF run] by simp
  also have "\<dots> = shape tm" using run by (rule reachable_shape)
  finally have "length (sequenceToI y) = length tm" by (rule shape_length)
  then have len: "length y = length tm" by (simp add: length_sequenceToI)
  have "Online_loop (length tm) (init_state tm tb lam) (Ys @ y # Zs)
      = Online_loop (length tm) st (y # Zs)"
    using run by (rule Online_loop_append)
  also have "\<dots> = Inl (Online_nan_loop (length tm) (sequenceToI y) Zs)"
    by (simp add: it)
  also have "\<dots> = Inl (if list_all (\<lambda>z. length z = length y) Zs then DivisionByZero else IndexError)"
    by (simp only: Online_nan_loop_lengths [OF len])
  finally show "Online_EM (Ys @ y # Zs) tm tb lam =
      (if list_all (\<lambda>z. length z = length y) Zs then Inl DivisionByZero else Inl IndexError)"
    by (simp add: Online_EM_def Let_def)
qed

theorem Z0_I_zero_likelihoods_witness:
  "Z0_I (sequenceToI ''A'') [[0, 1, 0, 0]] [[0, 1, 0, 0]] (3/10) = Inl DivisionByZero \<and>
   Online_iter 1 (init_state [[0, 1, 0, 0]] [[0, 1, 0, 0]] (1/2)) ''A'' = Inl DivisionByZero \<and>
   Online_EM [''A'', ''C''] [[0, 1, 0, 0]] [[0, 1, 0, 0]] (1/2) = Inl DivisionByZero \<and>
   Online_EM [''A'', ''AC''] [[0, 1, 0, 0]] [[0, 1, 0, 0]] (1/2) = Inl IndexError"
proof -
  have a: "pI_motif (sequenceToI ''A'') [[0, 1, 0, 0]] = Inr 0"
    by (simp add: pI_motif_def sequenceToI_def shape_def mask_select_def mask_row_def)
  have b: "pI_background (sequenceToI ''A'') [[0, 1, 0, 0]] = Inr 0"
    by (simp add: pI_background_def sequenceToI_def shape_def mask_select_def mask_row_def)
  note inst = Z0_I_zero_likelihoods [OF a b, of "3/10"]
  have run: "Online_loop (length [[0, 1, 0, 0::real]]) (init_state [[0, 1, 0, 0]] [[0, 1, 0, 0]] (1/2)) []
      = Inr (init_state [[0, 1, 0, 0]] [[0, 1, 0, 0]] (1/2))"
    by simp
  have st: "[[0, 1, 0, 0]] = theta_motif (init_state [[0, 1, 0, 0]] [[0, 1, 0, 0]] (1/2))"
    "[[0, 1, 0, 0]] = theta_background_matrix (init_state [[0, 1, 0, 0]] [[0, 1, 0, 0]] (1/2))"
    by (simp_all add: init_state_def)
  from inst have z: "Z0_I (sequenceToI ''A'') [[0, 1, 0, 0]] [[0, 1, 0, 0]] (3/10) = Inl DivisionByZero"
    by (rule conjunct1)
  from inst run st
  have c: "Online_iter (length [[0, 1, 0, 0::real]]) (init_state [[0, 1, 0, 0]] [[0, 1, 0, 0]] (1/2)) ''A''
        = Inl DivisionByZero \<and>
      Online_EM ([] @ ''A'' # Zs) [[0, 1, 0, 0]] [[0, 1, 0, 0]] (1/2) =
        (if list_all (\<lambda>z. length z = length ''A'') Zs then Inl DivisionByZero else Inl IndexError)" for Zs
    by blast
  from c [of "[''C'']"] c [of "[''AC'']"] z show ?thesis by simp
qed

subsection \<open>The parameters rebuilt after each sequence\<close>

lemma nonneg_matrixD: "nonneg_matrix m \<Longrightarrow> row \<in> set m \<Longrightarrow> x \<in> set row \<Longrightarrow> 0 \<le> x"
  by (simp add: nonneg_matrix_def list_all_iff)

lemma pos_matrixD: "pos_matrix m \<Longrightarrow> row \<in> set m \<Longrightarrow> x \<in> set row \<Longrightarrow> 0 < x"
  by (simp add: pos_matrix_def list_all_iff)

lemma mask_row_subset: "x \<in> set (mask_row r t) \<Longrightarrow> x \<in> set t"
  by (auto simp: mask_row_def dest: set_zip_rightD)

lemma mask_select_entries:
  assumes "x \<in> set (mask_select I theta)"
  shows "\<exists>row \<in> set theta. x \<in> set row"
proof -
  from assms obtain r t where "(r, t) \<in> set (zip I theta)" and "x \<in> set (mask_row r t)"
    by (auto simp: mask_select_def)
  then show ?thesis by (blast dest: set_zip_rightD mask_row_subset)
qed

lemma prod_list_nonneg_real:
  fixes xs :: "real list"
  shows "(\<And>x. x \<in> set xs \<Longrightarrow> 0 \<le> x) \<Longrightarrow> 0 \<le> prod_list xs"
  by (induction xs) simp_all

lemma prod_list_pos_real:
  fixes xs :: "real list"
  shows "(\<And>x. x \<in> set xs \<Longrightarrow> 0 < x) \<Longrightarrow> 0 < prod_list xs"
  by (induction xs) simp_all

lemma sum_list_pos_real:
  fixes xs :: "real list"
  shows "xs \<noteq> [] \<Longrightarrow> (\<And>x. x \<in> set xs \<Longrightarrow> 0 < x) \<Longrightarrow> 0 < sum_list xs"
proof (induction xs)
  case Nil
  then show ?case by simp
next
  case (Cons a xs)
  show ?case
  proof (cases "xs = []")
    case True
    with Cons.prems show ?thesis by simp
  next
    case False
    with Cons have "0 < sum_list xs" by simp
    moreover from Cons.prems have "0 < a" by simp
    ultimately show ?thesis by simp
  qed
qed

lemma pI_motif_nonneg:
  assumes "shape I = shape tm" and "nonneg_matrix tm"
  shows "\<exists>pm. pI_motif I tm = Inr pm \<and> 0 \<le> pm"
proof -
  have "0 \<le> prod_list (mask_select I tm)"
    using assms(2) by (intro prod_list_nonneg_real) (blast dest: mask_select_entries nonneg_matrixD)
  with assms(1) show ?thesis by (simp add: pI_motif_def)
qed

lemma pI_background_pos:
  assumes "shape I = shape tb" and "pos_matrix tb"
  shows "\<exists>pb. pI_background I tb = Inr pb \<and> 0 < pb"
proof -
  have "0 < prod_list (mask_select I tb)"
    using assms(2) by (intro prod_list_pos_real) (blast dest: mask_select_entries pos_matrixD)
  with assms(1) show ?thesis by (simp add: pI_background_def)
qed

lemma Z0_I_defined:
  assumes "shape I = shape tm" and "shape I = shape tb"
    and "nonneg_matrix tm" and "pos_matrix tb" and "0 \<le> lam" and "lam < 1"
  shows "\<exists>Z. Z0_I I tm tb lam = Inr Z \<and> 0 \<le> Z \<and> Z < 1"
proof -
  from assms(1,3) obtain pm where pm: "pI_motif I tm = Inr pm" "0 \<le> pm"
    using pI_motif_nonneg by blast
  from assms(2,4) obtain pb where pb: "pI_background I tb = Inr pb" "0 < pb"
    using pI_background_pos by blast
  from pm(2) assms(5) have a: "0 \<le> pm * lam" by simp
  from pb(2) assms(6) have b: "0 < pb * (1 - lam)" by simp
  from a b have d: "0 < pm * lam + pb * (1 - lam)" by simp
  then have "Z0_I I tm tb lam = Inr (pm * lam / (pm * lam + pb * (1 - lam)))"
    using pm(1) pb(1) by (intro Z0_I_value) simp_all
  moreover from a d have "0 \<le> pm * lam / (pm * lam + pb * (1 - lam))" by simp
  moreover from b d have "pm * lam / (pm * lam + pb * (1 - lam)) < 1" by simp
  ultimately show ?thesis by blast
qed

lemma map2_entries:
  assumes "row \<in> set (map2 (map2 f) A I)" and "x \<in> set row"
  shows "\<exists>a \<in> set A. \<exists>s \<in> set a. \<exists>b. x = f s b"
proof -
  from assms(1) obtain a r where ar: "(a, r) \<in> set (zip A I)" and row: "row = map2 f a r"
    by auto
  from assms(2) row obtain s b where sb: "(s, b) \<in> set (zip a r)" and x: "x = f s b"
    by auto
  from ar have "a \<in> set A" by (rule set_zip_leftD)
  moreover from sb have "s \<in> set a" by (rule set_zip_leftD)
  ultimately show ?thesis using x by blast
qed

lemma shape_map2:
  assumes "shape A = shape I"
  shows "shape (map2 (map2 f) A I) = shape I"
proof -
  from assms have len: "length A = length I" by (rule shape_length)
  show ?thesis unfolding shape_def
  proof (rule nth_equalityI)
    show "length (map length (map2 (map2 f) A I)) = length (map length I)"
      using len by simp
    fix i assume "i < length (map length (map2 (map2 f) A I))"
    with len have i: "i < length A" "i < length I" by simp_all
    from assms i(1) have "length (A ! i) = length (I ! i)" by (rule shape_row)
    with i show "map length (map2 (map2 f) A I) ! i = map length I ! i" by simp
  qed
qed

lemma ewma_nonneg: "0 \<le> s \<Longrightarrow> 0 \<le> d \<Longrightarrow> 0 \<le> ewma s d"
  unfolding ewma_def by argo

lemma ewma_pos: "0 < s \<Longrightarrow> 0 \<le> d \<Longrightarrow> 0 < ewma s d"
  unfolding ewma_def by argo

lemma ewma_less_one: "s < 1 \<Longrightarrow> d < 1 \<Longrightarrow> ewma s d < 1"
  unfolding ewma_def by argo

lemma shape_rows:
  assumes "shape m = replicate W c"
  shows "length m = W" and "row \<in> set m \<Longrightarrow> length row = c"
proof -
  from assms have "length (map length m) = length (replicate W c)"
    unfolding shape_def by simp
  then show "length m = W" by simp
  assume "row \<in> set m"
  then have "length row \<in> set (map length m)" by simp
  with assms show "length row = c" unfolding shape_def by simp
qed

lemma sum_list_map_nth:
  fixes f :: "'a \<Rightarrow> real"
  shows "sum_list (map f xs) = (\<Sum>i<length xs. f (xs ! i))"
proof -
  have "sum_list (map f xs) = (\<Sum>i = 0..<length (map f xs). map f xs ! i)"
    by (rule sum_list_sum_nth)
  also have "\<dots> = (\<Sum>i = 0..<length xs. f (xs ! i))"
    by (rule sum.cong) simp_all
  finally show ?thesis by (simp add: atLeast0LessThan)
qed

lemma colsum_entries:
  assumes "shape m = replicate W 4" and "0 < W"
  shows "colsum m = map (\<lambda>j. \<Sum>r<W. m ! r ! j) [0..<4]"
proof -
  from assms have "ncols m = 4" by (rule ncols_shape)
  moreover have "sum_list (column m j) = (\<Sum>r<W. m ! r ! j)" for j
    unfolding column_def using shape_rows(1) [OF assms(1)] by (simp add: sum_list_map_nth)
  ultimately show ?thesis by (simp add: colsum_def)
qed

lemma colsum_total:
  assumes "shape m = replicate W 4" and "0 < W"
  shows "sum_list (colsum m) = (\<Sum>r<W. \<Sum>k<4. m ! r ! k)"
proof -
  have "sum_list (colsum m) = sum_list (map (\<lambda>j. \<Sum>r<W. m ! r ! j) [0..<4])"
    using assms by (simp only: colsum_entries)
  also have "\<dots> = (\<Sum>j = 0..<4. \<Sum>r<W. m ! r ! j)"
    by (simp add: interv_sum_list_conv_sum_set_nat)
  also have "\<dots> = (\<Sum>j<4. \<Sum>r<W. m ! r ! j)"
    by (simp only: atLeast0LessThan)
  also have "\<dots> = (\<Sum>r<W. \<Sum>k<4. m ! r ! k)"
    by (rule sum.swap)
  finally show ?thesis .
qed

lemma colsum_pos:
  assumes "shape m = replicate W 4" and "0 < W" and "pos_matrix m"
  shows "\<forall>x \<in> set (colsum m). 0 < x" and "0 < sum_list (colsum m)" and "length (colsum m) = 4"
proof -
  from assms(1,2) have nc: "ncols m = 4" by (rule ncols_shape)
  from shape_rows(1) [OF assms(1)] assms(2) have ne: "m \<noteq> []" by auto
  have col: "0 < sum_list (column m j)" if "j < 4" for j
  proof (rule sum_list_pos_real)
    show "column m j \<noteq> []" using ne by (simp add: column_def)
    fix x assume "x \<in> set (column m j)"
    then obtain row where row: "row \<in> set m" and x: "x = row ! j"
      by (auto simp: column_def)
    from shape_rows(2) [OF assms(1) row] that have "row ! j \<in> set row" by simp
    with assms(3) row show "0 < x" unfolding x by (blast dest: pos_matrixD)
  qed
  then show pos: "\<forall>x \<in> set (colsum m). 0 < x"
    by (auto simp: colsum_def nc)
  show len: "length (colsum m) = 4" by (simp add: colsum_def nc)
  from len have "colsum m \<noteq> []" by auto
  then show "0 < sum_list (colsum m)" using pos by (intro sum_list_pos_real) simp_all
qed

lemma Online_M_step_Inr:
  assumes "sum_list (colsum (s2_2 st1)) \<noteq> 0"
  shows "Online_M_step W st1 =
           Inr (st1\<lparr>lambda_motif := s1_1 st1, theta_motif := s1_2 st1,
                     theta_background_matrix :=
                       replicate W (map (\<lambda>x. x / sum_list (colsum (s2_2 st1))) (colsum (s2_2 st1)))\<rparr>)"
  using assms by (simp add: Online_M_step_def Let_def repeat_rows_def)

lemma Online_M_step_total:
  assumes "Online_M_step W st1 = Inr st2"
  shows "sum_list (colsum (s2_2 st1)) \<noteq> 0"
  using assms by (auto simp: Online_M_step_def Let_def split: if_splits)

lemma good_state_step:
  assumes g: "good_state W st" and W: "0 < W" and y: "length y = W"
  shows "\<exists>st'. Online_iter W st y = Inr st' \<and> good_state W st'"
proof -
  let ?I = "sequenceToI y"
  from y have shI: "shape ?I = replicate W 4" by (simp add: shape_sequenceToI)
  from g have inv: "lambda_motif st = s1_1 st" "theta_motif st = s1_2 st"
    "shape (s1_2 st) = replicate W 4" "shape (s2_2 st) = replicate W 4"
    "shape (theta_background_matrix st) = replicate W 4"
    "nonneg_matrix (s1_2 st)" "pos_matrix (s2_2 st)"
    "pos_matrix (theta_background_matrix st)" "0 \<le> s1_1 st" "s1_1 st < 1"
    by (simp_all add: good_state_def)
  have "\<exists>Z. Z0_I ?I (theta_motif st) (theta_background_matrix st) (lambda_motif st) = Inr Z \<and> 0 \<le> Z \<and> Z < 1"
    using shI inv by (intro Z0_I_defined) simp_all
  then obtain Z where Z: "Z0_I ?I (theta_motif st) (theta_background_matrix st) (lambda_motif st) = Inr Z"
    and Z0: "0 \<le> Z" and Z1: "Z < 1" by blast
  let ?A1 = "map2 (map2 (\<lambda>s b. ewma s (Z * of_bool b))) (s1_2 st) ?I"
  let ?A2 = "map2 (map2 (\<lambda>s b. ewma s ((1 - Z) * of_bool b))) (s2_2 st) ?I"
  let ?st1 = "st\<lparr>s1_1 := ewma (s1_1 st) Z, s1_2 := ?A1, s2_2 := ?A2\<rparr>"
  have e: "Online_E_step st ?I = Inr ?st1"
    using Z shI inv(3,4) by (intro Online_E_step_Inr) simp_all
  have sh1: "shape ?A1 = replicate W 4"
    using shI inv(3) by (simp add: shape_map2)
  have sh2: "shape ?A2 = replicate W 4"
    using shI inv(4) by (simp add: shape_map2)
  have nn1: "nonneg_matrix ?A1"
    unfolding nonneg_matrix_def list_all_iff
  proof (intro ballI)
    fix row x assume "row \<in> set ?A1" and "x \<in> set row"
    then obtain a s b where "a \<in> set (s1_2 st)" "s \<in> set a" and x: "x = ewma s (Z * of_bool b)"
      by (blast dest: map2_entries)
    with inv(6) have "0 \<le> s" by (blast dest: nonneg_matrixD)
    moreover from Z0 have "0 \<le> Z * of_bool b" by simp
    ultimately show "0 \<le> x" unfolding x by (rule ewma_nonneg)
  qed
  have p2: "pos_matrix ?A2"
    unfolding pos_matrix_def list_all_iff
  proof (intro ballI)
    fix row x assume "row \<in> set ?A2" and "x \<in> set row"
    then obtain a s b where "a \<in> set (s2_2 st)" "s \<in> set a" and x: "x = ewma s ((1 - Z) * of_bool b)"
      by (blast dest: map2_entries)
    with inv(7) have "0 < s" by (blast dest: pos_matrixD)
    moreover from Z1 have "0 \<le> (1 - Z) * of_bool b" by simp
    ultimately show "0 < x" unfolding x by (rule ewma_pos)
  qed
  note cs = colsum_pos [OF sh2 W p2]
  let ?t = "sum_list (colsum ?A2)"
  let ?row = "map (\<lambda>x. x / ?t) (colsum ?A2)"
  let ?st2 = "?st1\<lparr>lambda_motif := s1_1 ?st1, theta_motif := s1_2 ?st1,
                    theta_background_matrix := replicate W ?row\<rparr>"
  have "sum_list (colsum (s2_2 ?st1)) \<noteq> 0" using cs(2) by simp
  then have "Online_M_step W ?st1 =
      Inr (?st1\<lparr>lambda_motif := s1_1 ?st1, theta_motif := s1_2 ?st1,
            theta_background_matrix :=
              replicate W (map (\<lambda>x. x / sum_list (colsum (s2_2 ?st1))) (colsum (s2_2 ?st1)))\<rparr>)"
    by (rule Online_M_step_Inr)
  then have m: "Online_M_step W ?st1 = Inr ?st2" by simp
  have iter: "Online_iter W st y = Inr (?st2\<lparr>n := n ?st2 + 1\<rparr>)"
    by (simp only: Online_iter_def Let_def e m sum.case)
  have shb: "shape (replicate W ?row) = replicate W 4"
    using cs(3) by (simp add: shape_def)
  have pb: "pos_matrix (replicate W ?row)"
    unfolding pos_matrix_def list_all_iff using cs(1,2) by auto
  have l0: "0 \<le> ewma (s1_1 st) Z" using inv(9) Z0 by (rule ewma_nonneg)
  have l1: "ewma (s1_1 st) Z < 1" using inv(10) Z1 by (rule ewma_less_one)
  have "good_state W (?st2\<lparr>n := n ?st2 + 1\<rparr>)"
    unfolding good_state_def using sh1 sh2 nn1 p2 shb pb l0 l1 by simp
  with iter show ?thesis by blast
qed

lemma good_state_loop:
  assumes "good_state W st" and "0 < W" and "list_all (\<lambda>y. length y = W) Ys"
  shows "\<exists>st'. Online_loop W st Ys = Inr st' \<and> good_state W st'"
  using assms
proof (induction Ys arbitrary: st)
  case Nil
  then show ?case by simp
next
  case (Cons y Ys)
  from Cons.prems have "length y = W" by simp
  with Cons.prems(1,2) obtain st1 where i: "Online_iter W st y = Inr st1" and g: "good_state W st1"
    using good_state_step by blast
  from Cons.prems(3) have "list_all (\<lambda>y. length y = W) Ys" by simp
  from Cons.IH [OF g Cons.prems(2) this] obtain st' where
    "Online_loop W st1 Ys = Inr st'" "good_state W st'" by blast
  with i show ?case by simp
qed

lemma good_state_init:
  assumes "shape tm = replicate W 4" and "shape tb = replicate W 4"
    and "nonneg_matrix tm" and "pos_matrix tb" and "0 \<le> lam" and "lam < 1"
  shows "good_state W (init_state tm tb lam)"
  using assms by (simp add: good_state_def init_state_def)

lemma run_last_iteration:
  assumes run: "Online_loop (length tm) (init_state tm tb lam) (Ys @ [y]) = Inr st'"
  shows "\<exists>st st1. Online_loop (length tm) (init_state tm tb lam) Ys = Inr st \<and>
           Online_E_step st (sequenceToI y) = Inr st1 \<and>
           s1_1 st' = s1_1 st1 \<and> s1_2 st' = s1_2 st1 \<and> s2_2 st' = s2_2 st1 \<and>
           shape (s2_2 st') = replicate (length tm) 4 \<and>
           sum_list (colsum (s2_2 st')) \<noteq> 0 \<and> 0 < length tm"
proof -
  let ?W = "length tm"
  from Online_loop_snoc [OF run] obtain st where l: "Online_loop ?W (init_state tm tb lam) Ys = Inr st"
    and i: "Online_iter ?W st y = Inr st'" by blast
  from i obtain st1 st2 where e: "Online_E_step st (sequenceToI y) = Inr st1"
    and m: "Online_M_step ?W st1 = Inr st2" and st': "st' = st2\<lparr>n := n st2 + 1\<rparr>"
    by (auto simp: Online_iter_def Let_def split: sum.splits)
  note f = Online_M_step_fields [OF m]
  have acc: "s1_1 st' = s1_1 st1" "s1_2 st' = s1_2 st1" "s2_2 st' = s2_2 st1"
    by (simp_all add: st' f)
  have "shape (sequenceToI y) = shape (s1_2 st1)"
    using Online_E_step_post(1) [OF e] by simp
  also have "\<dots> = shape tm"
    using reachable_shape [OF run] acc(2) by simp
  finally have shI: "shape (sequenceToI y) = shape tm" .
  then have "length (sequenceToI y) = length tm" by (rule shape_length)
  then have len: "length y = ?W" by (simp add: length_sequenceToI)
  have sh2: "shape (s2_2 st') = replicate ?W 4"
    using Online_E_step_post(2) [OF e] acc(3) len by (simp add: shape_sequenceToI)
  have tot: "sum_list (colsum (s2_2 st')) \<noteq> 0"
    using Online_M_step_total [OF m] acc(3) by simp
  have pos: "0 < ?W"
  proof (rule ccontr)
    assume "\<not> 0 < ?W"
    with sh2 have "s2_2 st' = []" by (simp add: shape_def)
    then have "sum_list (colsum (s2_2 st')) = 0" by (simp add: colsum_def ncols_def)
    with tot show False by simp
  qed
  from l e acc sh2 tot pos show ?thesis by blast
qed

text \<open>
  Claim C2. Whenever a run of the loop of \<open>Online_EM\<close> returns from the iteration of
  a sequence \<open>y\<close>, that iteration has updated the accumulators in its E-step and
  left \<open>lambda_motif = s1_1\<close>, \<open>theta_motif = s1_2\<close> (taken as it is, with no
  normalisation) and a background matrix of \<open>W\<close> identical rows of 4 entries:
  entry \<open>j\<close> is the sum of column \<open>j\<close> of \<open>s2_2\<close> divided by the sum of all entries of
  \<open>s2_2\<close>, so each row sums to 1. And the iteration does return on every
  well-formed input: a motif matrix without negative entries and a background
  matrix with positive entries, both \<open>W \<times> 4\<close> with \<open>W > 0\<close>, a weight in \<open>[0, 1)\<close>, and
  sequences of length \<open>W\<close>.
\<close>

theorem Online_M_step_parameters:
  "(\<forall>st'. Online_loop (length tm) (init_state tm tb lam) (Ys @ [y]) = Inr st' \<longrightarrow>
      (\<exists>st st1. Online_loop (length tm) (init_state tm tb lam) Ys = Inr st \<and>
         Online_E_step st (sequenceToI y) = Inr st1 \<and>
         s1_1 st' = s1_1 st1 \<and> s1_2 st' = s1_2 st1 \<and> s2_2 st' = s2_2 st1) \<and>
      lambda_motif st' = s1_1 st' \<and>
      theta_motif st' = s1_2 st' \<and>
      length (theta_background_matrix st') = length tm \<and>
      (\<forall>i<length tm.
         length (theta_background_matrix st' ! i) = 4 \<and>
         sum_list (theta_background_matrix st' ! i) = 1 \<and>
         theta_background_matrix st' ! i = theta_background_matrix st' ! 0 \<and>
         (\<forall>j<4. theta_background_matrix st' ! i ! j =
            (\<Sum>r<length tm. s2_2 st' ! r ! j) / (\<Sum>r<length tm. \<Sum>k<4. s2_2 st' ! r ! k)))) \<and>
   (0 < length tm \<and> shape tm = replicate (length tm) 4 \<and> shape tb = replicate (length tm) 4 \<and>
    nonneg_matrix tm \<and> pos_matrix tb \<and> 0 \<le> lam \<and> lam < 1 \<and>
    list_all (\<lambda>z. length z = length tm) (Ys @ [y]) \<longrightarrow>
      (\<exists>st'. Online_loop (length tm) (init_state tm tb lam) (Ys @ [y]) = Inr st'))"
proof (intro conjI allI impI)
  let ?W = "length tm"
  fix st'
  assume run: "Online_loop ?W (init_state tm tb lam) (Ys @ [y]) = Inr st'"
  from run_last_iteration [OF run] obtain st st1 where
    l: "Online_loop ?W (init_state tm tb lam) Ys = Inr st"
    and e: "Online_E_step st (sequenceToI y) = Inr st1"
    and acc: "s1_1 st' = s1_1 st1" "s1_2 st' = s1_2 st1" "s2_2 st' = s2_2 st1"
    and sh2: "shape (s2_2 st') = replicate ?W 4"
    and tot: "sum_list (colsum (s2_2 st')) \<noteq> 0" and pos: "0 < ?W"
    by blast
  from l e acc show "\<exists>st st1. Online_loop ?W (init_state tm tb lam) Ys = Inr st \<and>
         Online_E_step st (sequenceToI y) = Inr st1 \<and>
         s1_1 st' = s1_1 st1 \<and> s1_2 st' = s1_2 st1 \<and> s2_2 st' = s2_2 st1"
    by blast
  from reachable_inv(1) [OF run] show "lambda_motif st' = s1_1 st'" .
  from reachable_inv(2) [OF run] show "theta_motif st' = s1_2 st'" .
  let ?cs = "colsum (s2_2 st')"
  let ?row = "map (\<lambda>x. x / sum_list ?cs) ?cs"
  have bg: "theta_background_matrix st' = replicate ?W ?row"
    using reachable_inv(4) [OF run] by simp
  then show "length (theta_background_matrix st') = ?W" by simp
  have cs: "?cs = map (\<lambda>j. \<Sum>r<?W. s2_2 st' ! r ! j) [0..<4]"
    using sh2 pos by (rule colsum_entries)
  have total: "sum_list ?cs = (\<Sum>r<?W. \<Sum>k<4. s2_2 st' ! r ! k)"
    using sh2 pos by (rule colsum_total)
  have len: "length ?row = 4" by (simp add: cs)
  have one: "sum_list ?row = 1" using tot by (rule sum_list_normalised)
  have entry: "?row ! j = (\<Sum>r<?W. s2_2 st' ! r ! j) / (\<Sum>r<?W. \<Sum>k<4. s2_2 st' ! r ! k)"
    if "j < 4" for j
  proof -
    from that have "j < length ?cs" by (simp add: cs)
    then have "?row ! j = ?cs ! j / sum_list ?cs" by simp
    also have "?cs ! j = (\<Sum>r<?W. s2_2 st' ! r ! j)"
      using that by (simp add: cs)
    finally show ?thesis by (simp only: total)
  qed
  fix i assume i: "i < ?W"
  with bg have rowi: "theta_background_matrix st' ! i = ?row" by simp
  from bg pos have row0: "theta_background_matrix st' ! 0 = ?row" by simp
  show "length (theta_background_matrix st' ! i) = 4" by (simp only: rowi len)
  show "sum_list (theta_background_matrix st' ! i) = 1" by (simp only: rowi one)
  show "theta_background_matrix st' ! i = theta_background_matrix st' ! 0"
    by (simp only: rowi row0)
  fix j :: nat assume "j < 4"
  then show "theta_background_matrix st' ! i ! j =
      (\<Sum>r<?W. s2_2 st' ! r ! j) / (\<Sum>r<?W. \<Sum>k<4. s2_2 st' ! r ! k)"
    by (simp only: rowi entry)
next
  assume v: "0 < length tm \<and> shape tm = replicate (length tm) 4 \<and> shape tb = replicate (length tm) 4 \<and>
    nonneg_matrix tm \<and> pos_matrix tb \<and> 0 \<le> lam \<and> lam < 1 \<and>
    list_all (\<lambda>z. length z = length tm) (Ys @ [y])"
  then have "good_state (length tm) (init_state tm tb lam)"
    by (intro good_state_init) simp_all
  with v obtain st' where "Online_loop (length tm) (init_state tm tb lam) (Ys @ [y]) = Inr st'"
    using good_state_loop [of "length tm" "init_state tm tb lam" "Ys @ [y]"] by blast
  then show "\<exists>st'. Online_loop (length tm) (init_state tm tb lam) (Ys @ [y]) = Inr st'" ..
qed

theorem Online_M_step_parameters_witness:
  "\<exists>st'. Online_loop 2 (init_state [[1/4, 1/4, 1/4, 1/4], [1/4, 1/4, 1/4, 1/4]]
                 [[1/4, 1/4, 1/4, 1/4], [1/4, 1/4, 1/4, 1/4]] (1/2)) ([] @ [''AC'']) = Inr st' \<and>
     s2_2 st' = [[37/80, 3/80, 3/80, 3/80], [3/80, 37/80, 3/80, 3/80]] \<and>
     theta_background_matrix st' = [[10/23, 10/23, 3/46, 3/46], [10/23, 10/23, 3/46, 3/46]] \<and>
     lambda_motif st' = s1_1 st' \<and> theta_motif st' = s1_2 st' \<and>
     (\<forall>i<2. sum_list (theta_background_matrix st' ! i) = 1 \<and>
        (\<forall>j<4. theta_background_matrix st' ! i ! j =
           (\<Sum>r<2. s2_2 st' ! r ! j) / (\<Sum>r<2. \<Sum>k<4. s2_2 st' ! r ! k)))"
proof -
  let ?U = "[[1/4, 1/4, 1/4, 1/4], [1/4, 1/4, 1/4, 1/4 :: real]]"
  have len: "length ?U = 2" by simp
  note inst = Online_M_step_parameters [of ?U ?U "1/2" "[]" "''AC''", unfolded len]
  have valid: "0 < (2::nat) \<and> shape ?U = replicate 2 4 \<and> shape ?U = replicate 2 4 \<and>
      nonneg_matrix ?U \<and> pos_matrix ?U \<and> (0::real) \<le> 1/2 \<and> (1/2::real) < 1 \<and>
      list_all (\<lambda>z. length z = 2) ([] @ [''AC''])"
    by (simp add: shape_def nonneg_matrix_def pos_matrix_def numeral_2_eq_2)
  from inst have total: "0 < (2::nat) \<and> shape ?U = replicate 2 4 \<and> shape ?U = replicate 2 4 \<and>
      nonneg_matrix ?U \<and> pos_matrix ?U \<and> (0::real) \<le> 1/2 \<and> (1/2::real) < 1 \<and>
      list_all (\<lambda>z. length z = 2) ([] @ [''AC'']) \<longrightarrow>
      (\<exists>st'. Online_loop 2 (init_state ?U ?U (1/2)) ([] @ [''AC'']) = Inr st')"
    by (rule conjunct2)
  from total valid obtain st' where run: "Online_loop 2 (init_state ?U ?U (1/2)) ([] @ [''AC'']) = Inr st'"
    by blast
  from inst have "\<forall>st'. Online_loop 2 (init_state ?U ?U (1/2)) ([] @ [''AC'']) = Inr st' \<longrightarrow>
      (\<exists>st st1. Online_loop 2 (init_state ?U ?U (1/2)) [] = Inr st \<and>
         Online_E_step st (sequenceToI ''AC'') = Inr st1 \<and>
         s1_1 st' = s1_1 st1 \<and> s1_2 st' = s1_2 st1 \<and> s2_2 st' = s2_2 st1) \<and>
      lambda_motif st' = s1_1 st' \<and>
      theta_motif st' = s1_2 st' \<and>
      length (theta_background_matrix st') = 2 \<and>
      (\<forall>i<2.
         length (theta_background_matrix st' ! i) = 4 \<and>
         sum_list (theta_background_matrix st' ! i) = 1 \<and>
         theta_background_matrix st' ! i = theta_background_matrix st' ! 0 \<and>
         (\<forall>j<4. theta_background_matrix st' ! i ! j =
            (\<Sum>r<2. s2_2 st' ! r ! j) / (\<Sum>r<2. \<Sum>k<4. s2_2 st' ! r ! k)))"
    by (rule conjunct1)
  with run have props: "lambda_motif st' = s1_1 st' \<and> theta_motif st' = s1_2 st' \<and>
      (\<forall>i<2. sum_list (theta_background_matrix st' ! i) = 1 \<and>
        (\<forall>j<4. theta_background_matrix st' ! i ! j =
           (\<Sum>r<2. s2_2 st' ! r ! j) / (\<Sum>r<2. \<Sum>k<4. s2_2 st' ! r ! k)))"
    by blast
  have "Online_loop 2 (init_state ?U ?U (1/2)) ([] @ [''AC'']) =
      Inr \<lparr>s1_1 = 1/2, s1_2 = [[37/80, 3/80, 3/80, 3/80], [3/80, 37/80, 3/80, 3/80]],
           s2_2 = [[37/80, 3/80, 3/80, 3/80], [3/80, 37/80, 3/80, 3/80]],
           lambda_motif = 1/2,
           theta_motif = [[37/80, 3/80, 3/80, 3/80], [3/80, 37/80, 3/80, 3/80]],
           theta_background_matrix = [[10/23, 10/23, 3/46, 3/46], [10/23, 10/23, 3/46, 3/46]],
           n = 2\<rparr>"
    by (simp add: init_state_def Online_iter_def Online_E_step_def Online_M_step_def
        Z0_I_def pI_motif_def pI_background_def sequenceToI_def shape_def mask_select_def
        mask_row_def mask_scale_def mat_add_def mat_scale_def mat_sub_def colsum_def column_def
        ncols_def repeat_rows_def Let_def upt_rec numeral_2_eq_2)
  with run have "s2_2 st' = [[37/80, 3/80, 3/80, 3/80], [3/80, 37/80, 3/80, 3/80]] \<and>
      theta_background_matrix st' = [[10/23, 10/23, 3/46, 3/46], [10/23, 10/23, 3/46, 3/46]]"
    by auto
  with run props show ?thesis by blast
qed

subsection \<open>Whole runs of the online estimator\<close>

text \<open>
  Claim C4 at a concrete input: width 2, uniform motif and background matrices,
  weight \<open>1/2\<close>, the single sequence \<open>AC\<close>. The rows of the returned background
  matrix sum to 1 and the weight stays \<open>1/2\<close>, but each row of the returned motif
  matrix sums to \<open>23/40\<close>: the M-step takes \<open>s1_2\<close> without dividing its rows by
  their sums, although \<open>pI_motif\<close> documents that each row of its matrix must sum
  to 1 and the batch \<open>M\<close> normalises every row.
\<close>

theorem Online_EM_motif_rows_example:
  "Online_EM [''AC''] [[1/4, 1/4, 1/4, 1/4], [1/4, 1/4, 1/4, 1/4]]
       [[1/4, 1/4, 1/4, 1/4], [1/4, 1/4, 1/4, 1/4]] (1/2)
     = Inr ([[37/80, 3/80, 3/80, 3/80], [3/80, 37/80, 3/80, 3/80]],
            [[10/23, 10/23, 3/46, 3/46], [10/23, 10/23, 3/46, 3/46]], 1/2) \<and>
   map sum_list [[37/80, 3/80, 3/80, 3/80], [3/80, 37/80, 3/80, 3/80]] = [23/40, 23/40 :: real]"
  by (simp add: Online_EM_def init_state_def Online_iter_def Online_E_step_def Online_M_step_def
      Z0_I_def pI_motif_def pI_background_def sequenceToI_def shape_def mask_select_def
      mask_row_def mask_scale_def mat_add_def mat_scale_def mat_sub_def colsum_def column_def
      ncols_def repeat_rows_def Let_def upt_rec numeral_2_eq_2)

text \<open>
  Claim C5. On an empty collection \<open>Online_EM\<close> runs no update and returns the
  initial guess as it was given, without an error.
\<close>

theorem Online_EM_empty: "Online_EM [] tm tb lam = Inr (tm, tb, lam)"
  by (simp add: Online_EM_def init_state_def)

theorem Online_EM_empty_witness:
  "Online_EM [] [[1/4, 1/4, 1/4, 1/4]] [[1/4, 1/4, 1/4, 1/4]] (1/2)
     = Inr ([[1/4, 1/4, 1/4, 1/4]], [[1/4, 1/4, 1/4, 1/4]], 1/2)"
  by (rule Online_EM_empty)

subsection \<open>The random generators are not touched\<close>

lemma draw_advances: "snd (draw g) \<noteq> g"
  by (cases g) (simp add: draw_def)

lemma sequenceToI_rng_eq: "sequenceToI_rng X g = (sequenceToI X, g)"
  by (simp add: sequenceToI_rng_def sequenceToI_def)

lemma pI_motif_rng_eq: "pI_motif_rng I tm g = (pI_motif I tm, g)"
  by (simp add: pI_motif_rng_def pI_motif_def)

lemma pI_background_rng_eq: "pI_background_rng I tb g = (pI_background I tb, g)"
  by (simp add: pI_background_rng_def pI_background_def)

lemma Z0_I_rng_eq: "Z0_I_rng I tm tb lam g = (Z0_I I tm tb lam, g)"
  by (simp add: Z0_I_rng_def Z0_I_def pI_motif_rng_eq pI_background_rng_eq Let_def
      split: sum.splits)

lemma Online_iter_rng_eq: "Online_iter_rng W st y g = (Online_iter W st y, g)"
  by (simp add: Online_iter_rng_def Online_iter_def Online_E_step_def sequenceToI_rng_eq
      Z0_I_rng_eq Let_def split: sum.splits)

lemma Online_nan_loop_rng_eq: "Online_nan_loop_rng W I Y g = (Online_nan_loop W I Y, g)"
  by (induction Y arbitrary: I) (simp_all add: sequenceToI_rng_eq Let_def)

lemma Online_loop_rng_eq: "Online_loop_rng W st Y g = (Online_loop W st Y, g)"
  by (induction Y arbitrary: st)
    (simp_all add: Online_iter_rng_eq Online_nan_loop_rng_eq split: sum.splits error.splits)

text \<open>
  Claim C10. Run in any state \<open>g\<close> of the random generators, \<open>Online_EM\<close> returns the
  value that the sequence collection (in its order) and the three initial
  parameters determine, the same in every state \<open>g'\<close>, errors included, and leaves
  the generators in the state \<open>g\<close> it found them in, which is not the state a draw
  would have left: no random value is taken anywhere on the streaming path, and
  two runs on identical inputs produce identical outputs.
\<close>

theorem Online_EM_deterministic:
  "Online_EM_rng Y tm tb lam g = (Online_EM Y tm tb lam, g) \<and>
   fst (Online_EM_rng Y tm tb lam g) = fst (Online_EM_rng Y tm tb lam g') \<and>
   snd (Online_EM_rng Y tm tb lam g) \<noteq> snd (draw g)"
proof -
  have eq: "Online_EM_rng Y tm tb lam h = (Online_EM Y tm tb lam, h)" for h
    by (simp add: Online_EM_rng_def Online_EM_def Online_loop_rng_eq Let_def split: sum.splits)
  from draw_advances [of g] have "g \<noteq> snd (draw g)" by (rule not_sym)
  with eq show ?thesis by simp
qed

theorem Online_EM_deterministic_witness:
  "fst (Online_EM_rng [''AC''] [[1/4, 1/4, 1/4, 1/4], [1/4, 1/4, 1/4, 1/4]]
          [[1/4, 1/4, 1/4, 1/4], [1/4, 1/4, 1/4, 1/4]] (1/2) (\<lambda>k. real k, 7))
     = fst (Online_EM_rng [''AC''] [[1/4, 1/4, 1/4, 1/4], [1/4, 1/4, 1/4, 1/4]]
          [[1/4, 1/4, 1/4, 1/4], [1/4, 1/4, 1/4, 1/4]] (1/2) (\<lambda>k. 0, 0)) \<and>
   snd (Online_EM_rng [''AC''] [[1/4, 1/4, 1/4, 1/4], [1/4, 1/4, 1/4, 1/4]]
          [[1/4, 1/4, 1/4, 1/4], [1/4, 1/4, 1/4, 1/4]] (1/2) (\<lambda>k. real k, 7)) = (\<lambda>k. real k, 7)"
proof -
  note inst = Online_EM_deterministic [of "[''AC'']" "[[1/4, 1/4, 1/4, 1/4], [1/4, 1/4, 1/4, 1/4]]"
      "[[1/4, 1/4, 1/4, 1/4], [1/4, 1/4, 1/4, 1/4]]" "1/2" "(\<lambda>k. real k, 7)" "(\<lambda>k. 0, 0)"]
  from inst have same: "fst (Online_EM_rng [''AC''] [[1/4, 1/4, 1/4, 1/4], [1/4, 1/4, 1/4, 1/4]]
          [[1/4, 1/4, 1/4, 1/4], [1/4, 1/4, 1/4, 1/4]] (1/2) (\<lambda>k. real k, 7))
     = fst (Online_EM_rng [''AC''] [[1/4, 1/4, 1/4, 1/4], [1/4, 1/4, 1/4, 1/4]]
          [[1/4, 1/4, 1/4, 1/4], [1/4, 1/4, 1/4, 1/4]] (1/2) (\<lambda>k. 0, 0))"
    by (elim conjE)
  from inst have "Online_EM_rng [''AC''] [[1/4, 1/4, 1/4, 1/4], [1/4, 1/4, 1/4, 1/4]]
          [[1/4, 1/4, 1/4, 1/4], [1/4, 1/4, 1/4, 1/4]] (1/2) (\<lambda>k. real k, 7)
     = (Online_EM [''AC''] [[1/4, 1/4, 1/4, 1/4], [1/4, 1/4, 1/4, 1/4]]
          [[1/4, 1/4, 1/4, 1/4], [1/4, 1/4, 1/4, 1/4]] (1/2), (\<lambda>k. real k, 7))"
    by (elim conjE)
  then have "snd (Online_EM_rng [''AC''] [[1/4, 1/4, 1/4, 1/4], [1/4, 1/4, 1/4, 1/4]]
          [[1/4, 1/4, 1/4, 1/4], [1/4, 1/4, 1/4, 1/4]] (1/2) (\<lambda>k. real k, 7)) = (\<lambda>k. real k, 7)"
    by (simp only: snd_conv)
  with same show ?thesis by (rule conjI)
qed

end
